theory Spec2Isabelle
  imports Main "HOL-Library.Word"
begin

section \<open>Data model of worker.c\<close>

text \<open>
  The shared memory segment created by \<open>kore_worker_init\<close> holds one \<open>struct wlock\<close>
  followed by the array of \<open>struct kore_worker\<close>. Each process has its own copy of the
  static variables of worker.c. A value of the record \<open>kore\<close> below is what one process
  sees: its own globals together with the shared segment.
\<close>

text \<open>\<open>struct wlock\<close>: the lock word (\<open>volatile int\<close>) and the pid of the holder.\<close>

record wlock =
  lock :: int
  current :: int

text \<open>
  \<open>struct kore_worker\<close>, restricted to the members worker.c reads or writes. The struct
  is declared in kore.h; \<open>id\<close> and \<open>cpu\<close> are the \<open>u_int16_t\<close> arguments of
  \<open>kore_worker_spawn\<close>, \<open>pid\<close> is a \<open>pid_t\<close>. The handler pointer \<open>active_hdlr\<close> is
  kept as the name of the handler it points to (\<open>None\<close> for \<open>NULL\<close>).
\<close>

record kore_worker =
  kw_id :: "16 word"
  kw_cpu :: "16 word"
  kw_pid :: int
  kw_has_lock :: int
  kw_restarted :: int
  kw_running :: int
  kw_active_hdlr :: "string option"
  kw_lb_offset :: nat

text \<open>
  \<open>struct kore_domain\<close> and \<open>struct kore_server\<close> (kore.h), restricted to the members
  worker.c touches. An allocated buffer is \<open>NULL\<close>, live with its bytes, or freed;
  \<open>dom_ssl_ctx\<close> says whether the pointer \<open>ssl_ctx\<close> is not \<open>NULL\<close>.
\<close>

datatype buf = NULL | Buf "8 word list" | Freed

record kore_domain =
  dom_domain :: string
  dom_ssl_ctx :: bool
  dom_acme_cert :: buf
  dom_acme_cert_len :: "64 word"
  dom_acme_challenge :: int

record kore_server =
  srv_tls :: int
  srv_domains :: "kore_domain list"

datatype loglevel = LOG_DEBUG | LOG_NOTICE | LOG_WARNING | LOG_ERR | LOG_CRIT

text \<open>Message ids and destinations of the message bus (macros of kore.h).\<close>

datatype msgid =
  KORE_MSG_ACCEPT_AVAILABLE
  | KORE_MSG_CERTIFICATE
  | KORE_MSG_CERTIFICATE_REQ
  | KORE_MSG_CRL
  | KORE_MSG_ENTROPY_REQ
  | KORE_MSG_ENTROPY_RESP
  | KORE_MSG_SHUTDOWN
  | KORE_ACME_CHALLENGE_SET_CERT
  | KORE_ACME_CHALLENGE_CLEAR_CERT
  | KORE_MSG_OTHER nat

datatype msgdst = KORE_MSG_PARENT | KORE_MSG_WORKER_ALL | KORE_MSG_WORKER "16 word"

text \<open>
  Everything a function does to the outside world is appended to a trace: log lines (the
  format string of \<open>kore_log\<close>), compare-and-swap attempts on the lock word (expected
  value, new value, success), messages handed to \<open>kore_msg_send\<close>, signals raised, the
  forks of \<open>kore_worker_spawn\<close> (slot, id, cpu), the calls into the platform layer, the
  message bus of the parent, the random number generator (\<open>RandSeed buf num\<close> is the call
  \<open>RAND_seed(buf, num)\<close>) and the domain module.
\<close>

datatype event =
  Log loglevel string
  | Cas int int bool
  | Send msgdst msgid
  | Raise string
  | Fork nat "16 word" "16 word"
  | Fatal string
  | EnableAccept
  | DisableAccept
  | MsgParentRemove "16 word"
  | MsgParentAdd "16 word"
  | RandPoll
  | RandSeed "8 word list" int
  | TlsInit string string "8 word list"
  | CrlAdd string "8 word list"

text \<open>
  The globals of worker.c and the externs it uses, as one process sees them.
  \<open>kore_workers\<close> is the array in shared memory, addressed by slot as the macro
  \<open>WORKER(id)\<close> does (no bounds are checked there either); \<open>worker\<close> is the pointer to the
  process's own slot, kept as the slot number. \<open>hdlr_errors\<close> is the \<open>errors\<close> counter of
  each module handle, by the handler's name.
\<close>

text \<open>
  Modelled from the spec: the types of \<open>worker_count\<close> and \<open>cpu_count\<close>. Both are declared
  in kore.h, which is not among the sources; the specification calls \<open>worker_count\<close> an
  integer \<open>\<ge> 0\<close> that is replaced by the detected cpu count when it is 0, so both are
  natural numbers here. \<open>http_request_count\<close> and \<open>http_request_limit\<close> come from http.h
  and are taken as unsigned 32-bit counters, like the two connection counters they are
  compared next to.
\<close>

record kore =
  accept_avail :: int
  kore_workers :: "nat \<Rightarrow> kore_worker"
  worker_no_lock :: int
  accept_lock :: wlock
  worker :: nat
  worker_max_connections :: "32 word"
  worker_active_connections :: "32 word"
  worker_policy :: int
  worker_count :: nat
  cpu_count :: nat
  keymgr_active :: bool
  acme_provider :: bool
  kore_quiet :: bool
  nlisteners :: nat
  sig_recv :: int
  http_request_count :: "32 word"
  http_request_limit :: "32 word"
  kore_servers :: "kore_server list"
  hdlr_errors :: "string \<Rightarrow> nat"
  trace :: "event list"

definition WORKER_SOLO_COUNT :: nat where
  "WORKER_SOLO_COUNT = 3"

definition emit :: "event \<Rightarrow> kore \<Rightarrow> kore" where
  "emit e s = s\<lparr>trace := trace s @ [e]\<rparr>"

definition kore_log :: "loglevel \<Rightarrow> string \<Rightarrow> kore \<Rightarrow> kore" where
  "kore_log lvl fmt s = emit (Log lvl fmt) s"

definition kore_msg_send :: "msgdst \<Rightarrow> msgid \<Rightarrow> kore \<Rightarrow> kore" where
  "kore_msg_send dst mid s = emit (Send dst mid) s"

text \<open>\<open>worker->has_lock\<close> and the assignment to it.\<close>

definition has_lock :: "kore \<Rightarrow> int" where
  "has_lock s = kw_has_lock (kore_workers s (worker s))"

definition set_has_lock :: "int \<Rightarrow> kore \<Rightarrow> kore" where
  "set_has_lock v s =
     s\<lparr>kore_workers := (kore_workers s)(worker s := (kore_workers s (worker s))\<lparr>kw_has_lock := v\<rparr>)\<rparr>"

section \<open>The accept lock\<close>

text \<open>
  \<open>__sync_bool_compare_and_swap(&(accept_lock->lock), old, new)\<close>: the lock word is
  replaced by \<open>new\<close> when it holds \<open>old\<close>; the result says whether it was.
\<close>

definition sync_bool_compare_and_swap :: "int \<Rightarrow> int \<Rightarrow> kore \<Rightarrow> bool \<times> kore" where
  "sync_bool_compare_and_swap old new s =
     (if lock (accept_lock s) = old
      then (True, emit (Cas old new True) (s\<lparr>accept_lock := (accept_lock s)\<lparr>lock := new\<rparr>\<rparr>))
      else (False, emit (Cas old new False) s))"

definition worker_trylock :: "kore \<Rightarrow> int \<times> kore" where
  "worker_trylock s =
     (case sync_bool_compare_and_swap 0 1 s of
        (False, s1) \<Rightarrow> (0, s1)
      | (True, s1) \<Rightarrow>
          (1, s1\<lparr>accept_lock := (accept_lock s1)\<lparr>current := kw_pid (kore_workers s1 (worker s1))\<rparr>\<rparr>))"

definition worker_unlock :: "kore \<Rightarrow> kore" where
  "worker_unlock s =
     (case sync_bool_compare_and_swap 1 0 (s\<lparr>accept_lock := (accept_lock s)\<lparr>current := 0\<rparr>\<rparr>) of
        (False, s1) \<Rightarrow> kore_log LOG_NOTICE ''worker_unlock(): wasn't locked'' s1
      | (True, s1) \<Rightarrow> s1)"

text \<open>
  \<open>worker_acceptlock_obtain\<close>, with the HTTP module compiled in (\<open>KORE_NO_HTTP\<close> not
  defined). The result is the returned \<open>int\<close> and the state left behind.
\<close>

definition worker_acceptlock_obtain :: "kore \<Rightarrow> int \<times> kore" where
  "worker_acceptlock_obtain s =
     (if has_lock s = 1 then (1, s)
      else if worker_count s = WORKER_SOLO_COUNT \<or> worker_no_lock s = 1
        then (1, set_has_lock 1 s)
      else if worker_active_connections s \<ge> worker_max_connections s then (0, s)
      else if http_request_count s \<ge> http_request_limit s then (0, s)
      else (case worker_trylock s of
              (r, s1) \<Rightarrow> if r \<noteq> 0 then (1, set_has_lock 1 s1) else (0, s1)))"

definition worker_acceptlock_release :: "kore \<Rightarrow> kore" where
  "worker_acceptlock_release s =
     (if worker_count s = WORKER_SOLO_COUNT \<or> worker_no_lock s = 1 then s
      else if has_lock s \<noteq> 1 then s
      else if worker_active_connections s < worker_max_connections s
              \<and> http_request_count s < http_request_limit s then s
      else kore_msg_send KORE_MSG_WORKER_ALL KORE_MSG_ACCEPT_AVAILABLE
             (set_has_lock 0 (worker_unlock s)))"

definition kore_worker_make_busy :: "kore \<Rightarrow> kore" where
  "kore_worker_make_busy s =
     (if worker_count s = WORKER_SOLO_COUNT \<or> worker_no_lock s = 1 then s
      else if has_lock s \<noteq> 0
        then kore_msg_send KORE_MSG_WORKER_ALL KORE_MSG_ACCEPT_AVAILABLE
               (set_has_lock 0 (worker_unlock s))
      else s)"


text \<open>The compare-and-swap attempts recorded in a trace.\<close>

fun cas_events :: "event list \<Rightarrow> event list" where
  "cas_events [] = []"
| "cas_events (Cas a b r # es) = Cas a b r # cas_events es"
| "cas_events (e # es) = cas_events es"

text \<open>The lock word is well formed when it holds \<open>0\<close> (free) or \<open>1\<close> (held).\<close>

definition wlock_valid :: "kore \<Rightarrow> bool" where
  "wlock_valid s = (lock (accept_lock s) = 0 \<or> lock (accept_lock s) = 1)"

section \<open>The supervisor\<close>

text \<open>
  Modelled from the spec: \<open>KORE_WORKER_BASE\<close>, the first slot of a network worker, a
  constant of kore.h, which is not among the sources. Two slots are reserved, for the
  key manager and for ACME, and the network workers follow them ("Add two reserved
  slots"; the table has \<open>N_network + 2\<close> entries).
\<close>

definition KORE_WORKER_BASE :: nat where
  "KORE_WORKER_BASE = 2"

text \<open>
  The other constants of kore.h that worker.c uses are parameters of the functions below:
  the slots and the ids of the key manager and of the ACME process, the value of the
  terminate policy, the timeout that stands for "no timeout", the length of a domain
  name, and the size of \<open>struct kore_x509_msg\<close>.
\<close>

record kore_h =
  KORE_WORKER_KEYMGR_IDX :: nat
  KORE_WORKER_ACME_IDX :: nat
  KORE_WORKER_KEYMGR :: "16 word"
  KORE_WORKER_ACME :: "16 word"
  KORE_WORKER_POLICY_TERMINATE :: int
  KORE_WAIT_INFINITE :: "64 word"
  KORE_DOMAINNAME_LEN :: nat
  sizeof_kore_x509_msg :: "64 word"

text \<open>
  A function either returns to its caller or ends the process through \<open>fatal\<close>. Both
  carry the state reached: the shared segment outlives the process.
\<close>

datatype 'a result = Returns 'a | Exits 'a

fun state_of :: "'a result \<Rightarrow> 'a" where
  "state_of (Returns s) = s"
| "state_of (Exits s) = s"

definition fatal :: "string \<Rightarrow> kore \<Rightarrow> kore result" where
  "fatal fmt s = Exits (emit (Fatal fmt) s)"

text \<open>
  What the operating system answers to \<open>kore_worker_spawn\<close>: \<open>socketpair\<close> fails, a
  descriptor cannot be made non-blocking, \<open>fork\<close> fails, or \<open>fork\<close> returns the pid of
  the child. The model follows the parent; the child never returns from
  \<open>kore_worker_entry\<close>.
\<close>

datatype spawn_env = SocketpairFails | NonblockFails | ForkFails | Forked int

definition kore_worker_spawn :: "nat \<Rightarrow> 16 word \<Rightarrow> 16 word \<Rightarrow> spawn_env \<Rightarrow> kore \<Rightarrow> kore result" where
  "kore_worker_spawn idx wid cpu env s =
     (let kw = (kore_workers s idx)\<lparr>kw_id := wid, kw_cpu := cpu, kw_has_lock := 0,
                 kw_active_hdlr := None, kw_running := 1\<rparr>;
          s1 = s\<lparr>kore_workers := (kore_workers s)(idx := kw)\<rparr>
      in case env of
           SocketpairFails \<Rightarrow> fatal ''socketpair(): %s'' s1
         | NonblockFails \<Rightarrow> fatal ''could not set pipe fds to nonblocking: %s'' s1
         | ForkFails \<Rightarrow>
             fatal ''could not spawn worker child: %s''
               (s1\<lparr>kore_workers := (kore_workers s1)(idx := kw\<lparr>kw_pid := - 1\<rparr>)\<rparr>)
         | Forked p \<Rightarrow>
             Returns (emit (Fork idx wid cpu)
               (s1\<lparr>kore_workers := (kore_workers s1)(idx := kw\<lparr>kw_pid := p\<rparr>)\<rparr>)))"

text \<open>
  The two loops of \<open>kore_worker_init\<close> over the slots \<open>KORE_WORKER_BASE .. worker_count - 1\<close>.
  The slot counter \<open>idx\<close> is a natural number (the \<open>u_int16_t\<close> of the source does not
  wrap as long as \<open>worker_count\<close> fits 16 bits); \<open>id\<close> and \<open>cpu\<close> are 16-bit words and
  \<open>id++\<close>, \<open>cpu++\<close> wrap. \<open>env idx\<close> is the answer of the operating system to the spawn
  of slot \<open>idx\<close>.
\<close>

function init_log_buffers :: "nat \<Rightarrow> kore \<Rightarrow> kore" where
  "init_log_buffers idx s =
     (if idx < worker_count s
      then init_log_buffers (Suc idx)
             (s\<lparr>kore_workers := (kore_workers s)(idx := (kore_workers s idx)\<lparr>kw_lb_offset := 0\<rparr>)\<rparr>)
      else s)"
  by pat_completeness auto
termination
  by (relation "measure (\<lambda>(idx, s). worker_count s - idx)") auto

function init_spawn_workers :: "nat \<Rightarrow> (nat \<Rightarrow> spawn_env) \<Rightarrow> nat \<Rightarrow> 16 word \<Rightarrow> 16 word \<Rightarrow> kore \<Rightarrow> kore result" where
  "init_spawn_workers wc env idx wid cpu s =
     (if idx < wc
      then (let cpu1 = (if unat cpu \<ge> cpu_count s then 0 else cpu)
            in case kore_worker_spawn idx wid cpu1 (env idx) s of
                 Exits s1 \<Rightarrow> Exits s1
               | Returns s1 \<Rightarrow> init_spawn_workers wc env (Suc idx) (wid + 1) (cpu1 + 1) s1)
      else Returns s)"
  by pat_completeness auto
termination
  by (relation "measure (\<lambda>(wc, env, idx, wid, cpu, s). wc - idx)") auto

datatype shm_env = ShmgetFails | ShmatFails | ShmAttached

definition zero_worker :: kore_worker where
  "zero_worker = \<lparr>kw_id = 0, kw_cpu = 0, kw_pid = 0, kw_has_lock = 0, kw_restarted = 0,
                   kw_running = 0, kw_active_hdlr = None, kw_lb_offset = 0\<rparr>"

text \<open>
  \<open>kore_worker_init\<close>, with ACME compiled in. The new segment holds the lock, set to
  \<open>0\<close>, and the zeroed worker array.
\<close>

definition kore_worker_init :: "kore_h \<Rightarrow> shm_env \<Rightarrow> (nat \<Rightarrow> spawn_env) \<Rightarrow> kore \<Rightarrow> kore result" where
  "kore_worker_init h shm env s =
     (let s1 = s\<lparr>worker_no_lock := 0\<rparr>;
          s2 = (if worker_count s1 = 0 then s1\<lparr>worker_count := cpu_count s1\<rparr> else s1);
          s3 = s2\<lparr>worker_count := worker_count s2 + 2\<rparr>
      in case shm of
           ShmgetFails \<Rightarrow> fatal ''kore_worker_init(): shmget() %s'' s3
         | ShmatFails \<Rightarrow> fatal ''kore_worker_init(): shmat() %s'' s3
         | ShmAttached \<Rightarrow>
             (let s4 = s3\<lparr>accept_lock := \<lparr>lock = 0, current = 0\<rparr>,
                          kore_workers := (\<lambda>idx. zero_worker)\<rparr>;
                  s5 = init_log_buffers KORE_WORKER_BASE s4
              in case init_spawn_workers (worker_count s5) env KORE_WORKER_BASE 1 1 s5 of
                   Exits s6 \<Rightarrow> Exits s6
                 | Returns s6 \<Rightarrow>
                     (if keymgr_active s6
                      then (case (if acme_provider s6
                                  then kore_worker_spawn (KORE_WORKER_ACME_IDX h) (KORE_WORKER_ACME h) 0
                                         (env (KORE_WORKER_ACME_IDX h)) s6
                                  else Returns s6) of
                              Exits s7 \<Rightarrow> Exits s7
                            | Returns s7 \<Rightarrow>
                                kore_worker_spawn (KORE_WORKER_KEYMGR_IDX h) (KORE_WORKER_KEYMGR h) 0
                                  (env (KORE_WORKER_KEYMGR_IDX h)) s7)
                      else Returns s6)))"

text \<open>
  The state \<open>kore_worker_init\<close> has reached when the segment is attached and set up,
  before the first worker is spawned.
\<close>

definition init_segment :: "kore \<Rightarrow> kore" where
  "init_segment s =
     init_log_buffers KORE_WORKER_BASE
       (s\<lparr>worker_no_lock := 0,
          worker_count := (if worker_count s = 0 then cpu_count s else worker_count s) + 2,
          accept_lock := \<lparr>lock = 0, current = 0\<rparr>, kore_workers := (\<lambda>idx. zero_worker)\<rparr>)"

text \<open>
  The exit status handed to \<open>worker_reaper\<close>, as the macros of \<open>sys/wait.h\<close> read it: the
  child exited with a status, was ended by a signal, or was stopped.
\<close>

datatype wstatus = Exited nat | Signaled nat | Stopped nat

fun WIFEXITED :: "wstatus \<Rightarrow> bool" where
  "WIFEXITED (Exited n) = True"
| "WIFEXITED st = False"

fun WEXITSTATUS :: "wstatus \<Rightarrow> nat" where
  "WEXITSTATUS (Exited n) = n"
| "WEXITSTATUS st = 0"

fun WIFSIGNALED :: "wstatus \<Rightarrow> bool" where
  "WIFSIGNALED (Signaled n) = True"
| "WIFSIGNALED st = False"

fun WTERMSIG :: "wstatus \<Rightarrow> nat" where
  "WTERMSIG (Signaled n) = n"
| "WTERMSIG st = 0"

definition SIGSYS :: nat where
  "SIGSYS = 31"

text \<open>
  What the environment answers during one call of \<open>worker_reaper\<close>: whether
  \<open>kore_seccomp_trace\<close> claims the status (Linux), whether \<open>raise(SIGTERM)\<close> fails, and
  the answer to the spawn of the restarted worker.
\<close>

record reap_env =
  seccomp_trace :: bool
  raise_fails :: bool
  respawn :: spawn_env

definition raise_sigterm :: "reap_env \<Rightarrow> kore \<Rightarrow> kore" where
  "raise_sigterm env s =
     (let s1 = emit (Raise ''SIGTERM'') s
      in if raise_fails env then kore_log LOG_WARNING ''failed to raise SIGTERM signal'' s1
         else s1)"

definition set_worker :: "nat \<Rightarrow> (kore_worker \<Rightarrow> kore_worker) \<Rightarrow> kore \<Rightarrow> kore" where
  "set_worker idx f s = s\<lparr>kore_workers := (kore_workers s)(idx := f (kore_workers s idx))\<rparr>"

text \<open>
  The body of the loop of \<open>worker_reaper\<close> for the slot whose pid matched, in three
  parts that follow one another in the source; every path through them ends in \<open>break\<close>.
  HTTP is compiled in and the platform is Linux.

  Last part: the worker is a network worker that did not exit cleanly. The lock is taken
  from it if it is the recorded holder, the error count of its handler is raised, and
  the policy decides between stopping the server and restarting the worker.
\<close>

definition worker_reaper_restart :: "kore_h \<Rightarrow> reap_env \<Rightarrow> nat \<Rightarrow> kore \<Rightarrow> kore result" where
  "worker_reaper_restart h env idx s =
     (let kw = kore_workers s idx;
          s1 = (if kw_pid kw = current (accept_lock s) \<and> worker_no_lock s = 0
                then worker_unlock s else s);
          s2 = (case kw_active_hdlr kw of
                  None \<Rightarrow> s1
                | Some f \<Rightarrow>
                    kore_log LOG_NOTICE ''hdlr %s has caused %d error(s)''
                      (s1\<lparr>hdlr_errors := (hdlr_errors s1)(f := hdlr_errors s1 f + 1)\<rparr>))
      in if worker_policy s2 = KORE_WORKER_POLICY_TERMINATE h
         then Returns (raise_sigterm env
                (kore_log LOG_NOTICE ''worker policy is 'terminate', stopping''
                  (set_worker idx (\<lambda>kw. kw\<lparr>kw_pid := 0\<rparr>) s2)))
         else
           (let s3 = emit (MsgParentRemove (kw_id kw))
                       (set_worker idx (\<lambda>kw. kw\<lparr>kw_restarted := 1\<rparr>)
                         (kore_log LOG_NOTICE ''restarting worker %d'' s2))
            in case kore_worker_spawn idx (kw_id (kore_workers s3 idx))
                      (kw_cpu (kore_workers s3 idx)) (respawn env) s3 of
                 Exits s4 \<Rightarrow> Exits s4
               | Returns s4 \<Rightarrow> Returns (emit (MsgParentAdd (kw_id (kore_workers s4 idx))) s4)))"

text \<open>
  Middle part: the child did not exit cleanly. It is logged as gone; the loss of the key
  manager or of the ACME process stops the server.
\<close>

definition worker_reaper_gone :: "kore_h \<Rightarrow> reap_env \<Rightarrow> wstatus \<Rightarrow> nat \<Rightarrow> kore \<Rightarrow> kore result" where
  "worker_reaper_gone h env status idx s =
     (let s1 = kore_log LOG_NOTICE ''worker %d (pid: %d) (hdlr: %s) gone'' s;
          s2 = (if WIFSIGNALED status \<and> WTERMSIG status = SIGSYS
                then kore_log LOG_NOTICE ''worker %d died from sandbox violation'' s1
                else s1);
          kw = kore_workers s2 idx
      in if kw_id kw = KORE_WORKER_KEYMGR h \<or> kw_id kw = KORE_WORKER_ACME h
         then Returns (raise_sigterm env
                (set_worker idx (\<lambda>kw. kw\<lparr>kw_pid := 0\<rparr>)
                  (kore_log LOG_CRIT ''keymgr or acme process gone, stopping'' s2)))
         else worker_reaper_restart h env idx s2)"

text \<open>First part: the slot is marked as not running; a clean exit only clears its pid.\<close>

definition worker_reaper_slot :: "kore_h \<Rightarrow> reap_env \<Rightarrow> int \<Rightarrow> wstatus \<Rightarrow> nat \<Rightarrow> kore \<Rightarrow> kore result" where
  "worker_reaper_slot h env pid status idx s =
     (let s1 = (if \<not> kore_quiet s
                then kore_log LOG_NOTICE ''worker %s (%d) exited with status %d'' s else s);
          s2 = set_worker idx (\<lambda>kw. kw\<lparr>kw_running := 0\<rparr>) s1
      in if WIFEXITED status \<and> WEXITSTATUS status = 0
         then Returns (set_worker idx (\<lambda>kw. kw\<lparr>kw_pid := 0\<rparr>) s2)
         else worker_reaper_gone h env status idx s2)"

text \<open>
  The loop of \<open>worker_reaper\<close> over the slots \<open>idx .. worker_count - 1\<close>: a slot with
  another pid is skipped, the first slot with this pid is handled and ends the loop.
\<close>

function worker_reaper_loop :: "kore_h \<Rightarrow> reap_env \<Rightarrow> int \<Rightarrow> wstatus \<Rightarrow> nat \<Rightarrow> kore \<Rightarrow> kore result" where
  "worker_reaper_loop h env pid status idx s =
     (if idx < worker_count s
      then (if kw_pid (kore_workers s idx) \<noteq> pid
            then worker_reaper_loop h env pid status (Suc idx) s
            else worker_reaper_slot h env pid status idx s)
      else Returns s)"
  by pat_completeness auto
termination
  by (relation "measure (\<lambda>(h, env, pid, status, idx, s). worker_count s - idx)") auto

definition worker_reaper :: "kore_h \<Rightarrow> reap_env \<Rightarrow> int \<Rightarrow> wstatus \<Rightarrow> kore \<Rightarrow> kore result" where
  "worker_reaper h env pid status s =
     (if seccomp_trace env then Returns s else worker_reaper_loop h env pid status 0 s)"

text \<open>
  Any number of calls of \<open>worker_reaper\<close>, one after the other, each with the pid and
  status \<open>waitpid\<close> reported and the answers of the environment; the run ends when a
  call ends the supervisor.
\<close>

fun worker_reaper_seq :: "kore_h \<Rightarrow> (reap_env \<times> int \<times> wstatus) list \<Rightarrow> kore \<Rightarrow> kore result" where
  "worker_reaper_seq h [] s = Returns s"
| "worker_reaper_seq h ((env, pid, status) # rs) s =
     (case worker_reaper h env pid status s of
        Exits s1 \<Rightarrow> Exits s1
      | Returns s1 \<Rightarrow> worker_reaper_seq h rs s1)"

text \<open>The identity of a slot: the \<open>id\<close> and the \<open>cpu\<close> of its record.\<close>

definition slot_ids :: "kore \<Rightarrow> nat \<Rightarrow> 16 word \<times> 16 word" where
  "slot_ids s idx = (kw_id (kore_workers s idx), kw_cpu (kore_workers s idx))"

section \<open>The worker\<close>

text \<open>
  The assignments of \<open>kore_worker_entry\<close>, in a network worker, to the variables of
  worker.c before its loop starts (the calls into the other modules are left out; the
  key manager and the ACME process leave the function before): the process adopts its slot,
  a restarted worker asks the key manager for the certificates, and a process without
  listeners switches the lock off.
\<close>

definition kore_worker_entry_setup :: "kore_h \<Rightarrow> nat \<Rightarrow> kore \<Rightarrow> kore" where
  "kore_worker_entry_setup h idx s =
     (let s1 = s\<lparr>worker := idx, accept_avail := 1, worker_active_connections := 0\<rparr>;
          s2 = (if keymgr_active s1 \<and> kw_restarted (kore_workers s1 idx) \<noteq> 0
                then kore_msg_send (KORE_MSG_WORKER (KORE_WORKER_KEYMGR h))
                       KORE_MSG_CERTIFICATE_REQ s1
                else s1);
          s3 = (if nlisteners s2 = 0 then s2\<lparr>worker_no_lock := 1\<rparr> else s2);
          s4 = (if \<not> kore_quiet s3
                then kore_log LOG_NOTICE ''worker %d started (cpu#%d, pid#%d)'' s3 else s3)
      in set_worker idx (\<lambda>kw. kw\<lparr>kw_restarted := 0\<rparr>) s4)"

text \<open>
  Three pieces of one round of the loop of \<open>kore_worker_entry\<close>, in the order they run:
  the attempt to obtain the accept lock, the computation of \<open>netwait\<close>, and, after the
  wait for events, the release check. \<open>had_lock\<close> is the local variable of that name.
\<close>

definition entry_obtain :: "int \<Rightarrow> kore \<Rightarrow> int \<times> kore" where
  "entry_obtain had_lock s =
     (if has_lock s = 0 \<and> accept_avail s \<noteq> 0
      then (case worker_acceptlock_obtain s of
              (r, s1) \<Rightarrow>
                if r \<noteq> 0
                then (let s2 = s1\<lparr>accept_avail := 0\<rparr>
                      in if had_lock = 0 then (1, emit EnableAccept s2) else (had_lock, s2))
                else (had_lock, s1))
      else (had_lock, s))"

text \<open>
  \<open>next_run\<close> is the result of \<open>kore_timer_next_run(now)\<close> (timer.c) and \<open>coro_pending\<close>
  that of \<open>kore_python_coro_pending()\<close> (false in a build without \<open>KORE_USE_PYTHON\<close>);
  HTTP is compiled in.
\<close>

definition entry_netwait :: "kore_h \<Rightarrow> 64 word \<Rightarrow> bool \<Rightarrow> kore \<Rightarrow> 64 word" where
  "entry_netwait h next_run coro_pending s =
     (let netwait = next_run
      in if netwait = KORE_WAIT_INFINITE h
         then (let n1 = (if sig_recv s \<noteq> 0 then 10 else netwait);
                   n2 = (if http_request_count s > 0 then 100 else n1)
               in if coro_pending then 10 else n2)
         else netwait)"

definition entry_release :: "int \<Rightarrow> kore \<Rightarrow> int \<times> kore" where
  "entry_release had_lock s =
     (let s1 = (if has_lock s \<noteq> 0 then worker_acceptlock_release s else s)
      in if has_lock s1 = 0
         then (if had_lock = 1 then (0, emit DisableAccept s1) else (had_lock, s1))
         else (had_lock, s1))"





section \<open>Messages from the key manager\<close>

text \<open>
  \<open>struct kore_msg\<close> (the members worker.c reads) and \<open>struct kore_x509_msg\<close>, the view
  the handlers take of the payload: the domain name in its slot of
  \<open>KORE_DOMAINNAME_LEN + 1\<close> characters, the declared length and the data.
\<close>

record kore_msg =
  msg_id :: msgid
  msg_length :: "64 word"

record kore_x509_msg =
  x509_domain :: string
  x509_data_len :: "64 word"
  x509_data :: "8 word list"

text \<open>
  \<open>worker_entropy_recv\<close>. \<open>RAND_seed\<close> takes the number of bytes as an \<open>int\<close>: the \<open>size_t\<close>
  \<open>msg->length\<close> is converted to 32 bits, read as a signed number.
\<close>

definition worker_entropy_recv :: "kore_msg \<Rightarrow> 8 word list \<Rightarrow> kore \<Rightarrow> kore" where
  "worker_entropy_recv msg data s =
     (let s1 = (if msg_length msg \<noteq> 1024
                then kore_log LOG_WARNING ''invalid entropy response (got:%zu - wanted:1024)'' s
                else s)
      in emit (RandSeed data (sint (ucast (msg_length msg) :: 32 word))) (emit RandPoll s1))"

text \<open>A C string ends at its first NUL; \<open>strcmp\<close> compares two of them.\<close>

definition cstr :: "string \<Rightarrow> string" where
  "cstr xs = takeWhile (\<lambda>c. c \<noteq> CHR 0x00) xs"

definition strcmp_eq :: "string \<Rightarrow> string \<Rightarrow> bool" where
  "strcmp_eq a b = (cstr a = cstr b)"

text \<open>
  The search of \<open>kore_worker_keymgr_response_verify\<close>: \<open>TAILQ_FOREACH\<close> over the domains
  of one server, inside \<open>LIST_FOREACH\<close> over the servers. A domain is found as the pair
  of the position of its server and its position there.
\<close>

fun find_domain :: "string \<Rightarrow> kore_domain list \<Rightarrow> nat \<Rightarrow> nat option" where
  "find_domain name [] j = None"
| "find_domain name (d # ds) j =
     (if strcmp_eq (dom_domain d) name then Some j else find_domain name ds (Suc j))"

fun find_server_domain :: "string \<Rightarrow> kore_server list \<Rightarrow> nat \<Rightarrow> (nat \<times> nat) option" where
  "find_server_domain name [] i = None"
| "find_server_domain name (srv # srvs) i =
     (if srv_tls srv = 0 then find_server_domain name srvs (Suc i)
      else (case find_domain name (srv_domains srv) 0 of
              Some j \<Rightarrow> Some (i, j)
            | None \<Rightarrow> find_server_domain name srvs (Suc i)))"

datatype kore_result = KORE_RESULT_ERROR | KORE_RESULT_OK

text \<open>
  \<open>kore_worker_keymgr_response_verify\<close>. \<open>out\<close> says whether the pointer \<open>out\<close> is not
  \<open>NULL\<close>; the second component of the result is what is stored through it.
\<close>

definition kore_worker_keymgr_response_verify ::
  "kore_h \<Rightarrow> kore_msg \<Rightarrow> kore_x509_msg \<Rightarrow> bool \<Rightarrow> kore \<Rightarrow> kore_result \<times> (nat \<times> nat) option \<times> kore" where
  "kore_worker_keymgr_response_verify h msg req out s =
     (if msg_length msg < sizeof_kore_x509_msg h
      then (KORE_RESULT_ERROR, None, kore_log LOG_WARNING ''short keymgr message (%zu)'' s)
      else if msg_length msg \<noteq> sizeof_kore_x509_msg h + x509_data_len req
      then (KORE_RESULT_ERROR, None, kore_log LOG_WARNING ''invalid keymgr payload (%zu)'' s)
      else if x509_domain req ! KORE_DOMAINNAME_LEN h \<noteq> CHR 0x00
      then (KORE_RESULT_ERROR, None, kore_log LOG_WARNING ''domain not NUL-terminated'' s)
      else if \<not> out then (KORE_RESULT_OK, None, s)
      else (case find_server_domain (x509_domain req) (kore_servers s) 0 of
              None \<Rightarrow>
                (KORE_RESULT_ERROR, None,
                 kore_log LOG_WARNING ''got keymgr response for domain that does not exist'' s)
            | Some d \<Rightarrow> (KORE_RESULT_OK, Some d, s)))"

definition get_domain :: "nat \<times> nat \<Rightarrow> kore \<Rightarrow> kore_domain" where
  "get_domain d s = srv_domains (kore_servers s ! fst d) ! snd d"

definition set_domain :: "nat \<times> nat \<Rightarrow> (kore_domain \<Rightarrow> kore_domain) \<Rightarrow> kore \<Rightarrow> kore" where
  "set_domain d f s =
     (let srv = kore_servers s ! fst d
      in s\<lparr>kore_servers := (kore_servers s)
             [fst d := srv\<lparr>srv_domains := (srv_domains srv)[snd d := f (srv_domains srv ! snd d)]\<rparr>]\<rparr>)"

fun kore_free :: "buf \<Rightarrow> buf" where
  "kore_free NULL = NULL"
| "kore_free b = Freed"

text \<open>
  \<open>worker_keymgr_response\<close>, with ACME compiled in. \<open>kore_domain_tlsinit\<close> and
  \<open>kore_domain_crl_add\<close> belong to the domain module and are recorded as events.
\<close>

definition worker_keymgr_response :: "kore_h \<Rightarrow> kore_msg \<Rightarrow> kore_x509_msg \<Rightarrow> kore \<Rightarrow> kore" where
  "worker_keymgr_response h msg req s =
     (case kore_worker_keymgr_response_verify h msg req True s of
        (KORE_RESULT_ERROR, out, s1) \<Rightarrow> s1
      | (KORE_RESULT_OK, None, s1) \<Rightarrow> s1
      | (KORE_RESULT_OK, Some d, s1) \<Rightarrow>
          (let dm0 = get_domain d s1;
               data = take (unat (x509_data_len req)) (x509_data req)
           in case msg_id msg of
                KORE_MSG_CERTIFICATE \<Rightarrow>
                  emit (TlsInit (dom_domain dm0) ''KORE_PEM_CERT_CHAIN'' data) s1
              | KORE_MSG_CRL \<Rightarrow> emit (CrlAdd (dom_domain dm0) data) s1
              | KORE_ACME_CHALLENGE_SET_CERT \<Rightarrow>
                  (let s2 = (if \<not> dom_ssl_ctx dm0
                             then emit (TlsInit (dom_domain dm0) ''KORE_DER_CERT_DATA'' data) s1
                             else s1);
                       s3 = set_domain d (\<lambda>dm. dm\<lparr>dom_acme_cert_len := x509_data_len req,
                                                   dom_acme_cert := Buf data\<rparr>) s2;
                       s4 = kore_log LOG_NOTICE ''[%s] tls-alpn-01 challenge active'' s3
                   in set_domain d (\<lambda>dm. dm\<lparr>dom_acme_challenge := 1\<rparr>) s4)
              | KORE_ACME_CHALLENGE_CLEAR_CERT \<Rightarrow>
                  kore_log LOG_NOTICE ''[%s] tls-alpn-01 challenge disabled''
                    (set_domain d (\<lambda>dm. dm\<lparr>dom_acme_cert_len := 0, dom_acme_challenge := 0,
                                            dom_acme_cert := kore_free (dom_acme_cert dm)\<rparr>) s1)
              | _ \<Rightarrow> kore_log LOG_WARNING ''unknown keymgr request %u'' s1))"

section \<open>Example configurations\<close>

text \<open>
  Concrete values for the examples below: the constants of kore.h as the Kore
  distribution has them on a 64-bit host, a process about to call \<open>kore_worker_init\<close>
  with \<open>worker_count = n\<close> on a host with \<open>c\<close> cpus (the other variables at the initial
  values worker.c gives them), an operating system that answers every spawn with a fresh
  pid, and the pool that \<open>kore_worker_init\<close> then builds.
\<close>

definition ex_h :: kore_h where
  "ex_h = \<lparr>KORE_WORKER_KEYMGR_IDX = 0, KORE_WORKER_ACME_IDX = 1, KORE_WORKER_KEYMGR = 2000,
           KORE_WORKER_ACME = 2001, KORE_WORKER_POLICY_TERMINATE = 2,
           KORE_WAIT_INFINITE = - 1, KORE_DOMAINNAME_LEN = 255, sizeof_kore_x509_msg = 264\<rparr>"

definition ex_boot :: "nat \<Rightarrow> nat \<Rightarrow> kore" where
  "ex_boot n c =
     \<lparr>accept_avail = 0, kore_workers = (\<lambda>idx. zero_worker), worker_no_lock = 0,
      accept_lock = \<lparr>lock = 0, current = 0\<rparr>, worker = 0, worker_max_connections = 512,
      worker_active_connections = 0, worker_policy = 1, worker_count = n, cpu_count = c,
      keymgr_active = False, acme_provider = False, kore_quiet = False, nlisteners = 1,
      sig_recv = 0, http_request_count = 0, http_request_limit = 1000, kore_servers = [],
      hdlr_errors = (\<lambda>f. 0), trace = []\<rparr>"

definition ex_forks :: "nat \<Rightarrow> spawn_env" where
  "ex_forks idx = Forked (100 + int idx)"

definition ex_pool :: "nat \<Rightarrow> nat \<Rightarrow> kore" where
  "ex_pool n c = state_of (kore_worker_init ex_h ShmAttached ex_forks (ex_boot n c))"

text \<open>The worker of slot 2 of that pool, when it enters its loop.\<close>

definition ex_worker :: "nat \<Rightarrow> nat \<Rightarrow> kore" where
  "ex_worker n c = kore_worker_entry_setup ex_h 2 ((ex_pool n c)\<lparr>trace := []\<rparr>)"


text \<open>
  The supervisor of a pool of two while the worker of slot 2 (pid 102) holds the accept
  lock, and an environment in which the restart of a worker succeeds.
\<close>

definition ex_super :: kore where
  "ex_super = (ex_pool 2 2)\<lparr>accept_lock := \<lparr>lock = 1, current = 102\<rparr>\<rparr>"

definition ex_reap_env :: reap_env where
  "ex_reap_env = \<lparr>seccomp_trace = False, raise_fails = False, respawn = Forked 200\<rparr>"

text \<open>
  A key manager message for a domain (the name padded with NUL to the 256 characters of
  its slot) with its data, a message header of a given length, and a worker that serves
  \<open>example.com\<close> with TLS and \<open>plain.example\<close> without.
\<close>

definition ex_req :: "string \<Rightarrow> 8 word list \<Rightarrow> kore_x509_msg" where
  "ex_req name data =
     \<lparr>x509_domain = name @ replicate (256 - length name) (CHR 0x00),
      x509_data_len = of_nat (length data), x509_data = data\<rparr>"

definition ex_msg :: "msgid \<Rightarrow> nat \<Rightarrow> kore_msg" where
  "ex_msg mid len = \<lparr>msg_id = mid, msg_length = of_nat len\<rparr>"

definition ex_tls_worker :: kore where
  "ex_tls_worker =
     (ex_worker 2 2)\<lparr>kore_servers :=
        [\<lparr>srv_tls = 0, srv_domains = [\<lparr>dom_domain = ''plain.example'', dom_ssl_ctx = False,
            dom_acme_cert = NULL, dom_acme_cert_len = 0, dom_acme_challenge = 0\<rparr>]\<rparr>,
         \<lparr>srv_tls = 1, srv_domains = [\<lparr>dom_domain = ''example.com'', dom_ssl_ctx = True,
            dom_acme_cert = NULL, dom_acme_cert_len = 0, dom_acme_challenge = 0\<rparr>]\<rparr>]\<rparr>"

section \<open>Properties\<close>

subsection \<open>Unfolding the loops\<close>

declare init_log_buffers.simps [simp del]
declare init_spawn_workers.simps [simp del]
declare worker_reaper_loop.simps [simp del]

lemma init_spawn_workers_step:
  "idx < wc \<Longrightarrow> init_spawn_workers wc env idx wid cpu s =
     (case kore_worker_spawn idx wid (if unat cpu \<ge> cpu_count s then 0 else cpu) (env idx) s of
        Exits s1 \<Rightarrow> Exits s1
      | Returns s1 \<Rightarrow>
          init_spawn_workers wc env (Suc idx) (wid + 1)
            ((if unat cpu \<ge> cpu_count s then 0 else cpu) + 1) s1)"
  by (subst init_spawn_workers.simps) (simp add: Let_def)

lemma init_spawn_workers_stop:
  "\<not> idx < wc \<Longrightarrow> init_spawn_workers wc env idx wid cpu s = Returns s"
  by (subst init_spawn_workers.simps) simp

lemma init_log_buffers_step:
  "idx < worker_count s \<Longrightarrow>
   init_log_buffers idx s =
     init_log_buffers (Suc idx)
       (s\<lparr>kore_workers := (kore_workers s)(idx := (kore_workers s idx)\<lparr>kw_lb_offset := 0\<rparr>)\<rparr>)"
  by (subst init_log_buffers.simps) simp

lemma init_log_buffers_stop:
  "\<not> idx < worker_count s \<Longrightarrow> init_log_buffers idx s = s"
  by (subst init_log_buffers.simps) simp

lemma worker_reaper_loop_skip:
  "idx < worker_count s \<Longrightarrow> kw_pid (kore_workers s idx) \<noteq> pid \<Longrightarrow>
   worker_reaper_loop h env pid status idx s = worker_reaper_loop h env pid status (Suc idx) s"
  by (subst worker_reaper_loop.simps) simp

lemma worker_reaper_loop_hit:
  "idx < worker_count s \<Longrightarrow> kw_pid (kore_workers s idx) = pid \<Longrightarrow>
   worker_reaper_loop h env pid status idx s = worker_reaper_slot h env pid status idx s"
  by (subst worker_reaper_loop.simps) simp

lemma worker_reaper_loop_stop:
  "\<not> idx < worker_count s \<Longrightarrow> worker_reaper_loop h env pid status idx s = Returns s"
  by (subst worker_reaper_loop.simps) simp

text \<open>The examples are evaluated by unfolding, with these equations.\<close>

lemmas ex_eval = init_spawn_workers_step init_spawn_workers_stop init_log_buffers_step
  init_log_buffers_stop ex_worker_def ex_pool_def ex_boot_def ex_forks_def ex_h_def
  zero_worker_def kore_worker_init_def KORE_WORKER_BASE_def kore_worker_spawn_def
  kore_worker_entry_setup_def set_worker_def emit_def kore_log_def kore_msg_send_def
  has_lock_def set_has_lock_def WORKER_SOLO_COUNT_def worker_acceptlock_obtain_def
  worker_trylock_def sync_bool_compare_and_swap_def Let_def

subsection \<open>Frames: what the basic operations leave alone\<close>

lemma emit_frame [simp]:
  "accept_lock (emit e s) = accept_lock s"
  "kore_workers (emit e s) = kore_workers s"
  "worker (emit e s) = worker s"
  "worker_count (emit e s) = worker_count s"
  "worker_no_lock (emit e s) = worker_no_lock s"
  "worker_policy (emit e s) = worker_policy s"
  "kore_servers (emit e s) = kore_servers s"
  "trace (emit e s) = trace s @ [e]"
  by (simp_all add: emit_def)

lemma kore_log_frame [simp]:
  "accept_lock (kore_log l f s) = accept_lock s"
  "kore_workers (kore_log l f s) = kore_workers s"
  "worker (kore_log l f s) = worker s"
  "worker_count (kore_log l f s) = worker_count s"
  "worker_no_lock (kore_log l f s) = worker_no_lock s"
  "worker_policy (kore_log l f s) = worker_policy s"
  "kore_servers (kore_log l f s) = kore_servers s"
  "trace (kore_log l f s) = trace s @ [Log l f]"
  by (simp_all add: kore_log_def)

lemma kore_msg_send_frame [simp]:
  "accept_lock (kore_msg_send d m s) = accept_lock s"
  "kore_workers (kore_msg_send d m s) = kore_workers s"
  "worker (kore_msg_send d m s) = worker s"
  "trace (kore_msg_send d m s) = trace s @ [Send d m]"
  by (simp_all add: kore_msg_send_def)

lemma set_worker_frame [simp]:
  "accept_lock (set_worker idx f s) = accept_lock s"
  "worker (set_worker idx f s) = worker s"
  "worker_count (set_worker idx f s) = worker_count s"
  "worker_no_lock (set_worker idx f s) = worker_no_lock s"
  "worker_policy (set_worker idx f s) = worker_policy s"
  "trace (set_worker idx f s) = trace s"
  "kore_workers (set_worker idx f s) = (kore_workers s)(idx := f (kore_workers s idx))"
  by (simp_all add: set_worker_def)

lemma set_has_lock_frame [simp]:
  "accept_lock (set_has_lock v s) = accept_lock s"
  "worker (set_has_lock v s) = worker s"
  "trace (set_has_lock v s) = trace s"
  "has_lock (set_has_lock v s) = v"
  by (simp_all add: set_has_lock_def has_lock_def)

lemma has_lock_frame [simp]:
  "has_lock (emit e s) = has_lock s"
  "has_lock (kore_log l f s) = has_lock s"
  "has_lock (kore_msg_send d m s) = has_lock s"
  by (simp_all add: has_lock_def)

subsection \<open>Invariants of the start-up\<close>

lemma fatal_state [simp]: "state_of (fatal f s) = emit (Fatal f) s"
  by (simp add: fatal_def)

lemma init_spawn_workers_invariant:
  assumes step: "\<And>i w c e t. P t \<Longrightarrow> P (state_of (kore_worker_spawn i w c e t))"
    and "P s"
  shows "P (state_of (init_spawn_workers wc env idx wid cpu s))"
  using \<open>P s\<close>
proof (induction wc env idx wid cpu s rule: init_spawn_workers.induct)
  case (1 wc env idx wid cpu s)
  show ?case
  proof (cases "idx < wc")
    case False
    with 1 show ?thesis by (simp add: init_spawn_workers_stop)
  next
    case True
    let ?c = "if unat cpu \<ge> cpu_count s then 0 else cpu"
    have p: "P (state_of (kore_worker_spawn idx wid ?c (env idx) s))"
      using step "1.prems" by blast
    show ?thesis
    proof (cases "kore_worker_spawn idx wid ?c (env idx) s")
      case (Exits s1)
      with True p show ?thesis by (simp add: init_spawn_workers_step)
    next
      case (Returns s1)
      with p have "P s1" by simp
      from "1.IH" [OF True refl Returns this] Returns True show ?thesis
        by (simp add: init_spawn_workers_step)
    qed
  qed
qed

lemma kore_worker_init_attached:
  "kore_worker_init h ShmAttached env s =
     (case init_spawn_workers (worker_count (init_segment s)) env KORE_WORKER_BASE 1 1
             (init_segment s) of
        Exits s6 \<Rightarrow> Exits s6
      | Returns s6 \<Rightarrow>
          (if keymgr_active s6
           then (case (if acme_provider s6
                       then kore_worker_spawn (KORE_WORKER_ACME_IDX h) (KORE_WORKER_ACME h) 0
                              (env (KORE_WORKER_ACME_IDX h)) s6
                       else Returns s6) of
                   Exits s7 \<Rightarrow> Exits s7
                 | Returns s7 \<Rightarrow>
                     kore_worker_spawn (KORE_WORKER_KEYMGR_IDX h) (KORE_WORKER_KEYMGR h) 0
                       (env (KORE_WORKER_KEYMGR_IDX h)) s7)
           else Returns s6))"
  by (simp add: kore_worker_init_def init_segment_def Let_def)

lemma kore_worker_init_invariant:
  assumes step: "\<And>i w c e t. P t \<Longrightarrow> P (state_of (kore_worker_spawn i w c e t))"
    and seg: "P (init_segment s)"
  shows "P (state_of (kore_worker_init h ShmAttached env s))"
proof -
  let ?r = "init_spawn_workers (worker_count (init_segment s)) env KORE_WORKER_BASE 1 1
              (init_segment s)"
  have r: "P (state_of ?r)"
    using step seg by (rule init_spawn_workers_invariant)
  show ?thesis
  proof (cases ?r)
    case (Exits s6)
    with r show ?thesis by (simp add: kore_worker_init_attached)
  next
    case (Returns s6)
    with r have p6: "P s6" by simp
    let ?a = "if acme_provider s6
              then kore_worker_spawn (KORE_WORKER_ACME_IDX h) (KORE_WORKER_ACME h) 0
                     (env (KORE_WORKER_ACME_IDX h)) s6
              else Returns s6"
    have a: "P (state_of ?a)" using step [OF p6] p6 by simp
    show ?thesis
    proof (cases "keymgr_active s6")
      case False
      with Returns p6 show ?thesis by (simp add: kore_worker_init_attached)
    next
      case True
      show ?thesis
      proof (cases ?a)
        case (Exits s7)
        with a True Returns show ?thesis by (simp add: kore_worker_init_attached)
      next
        case R7: (Returns s7)
        with a have "P s7" by simp
        from step [OF this] R7 True Returns show ?thesis
          by (simp add: kore_worker_init_attached)
      qed
    qed
  qed
qed

lemma init_log_buffers_only_workers:
  "\<exists>f. init_log_buffers idx s = s\<lparr>kore_workers := f\<rparr>"
proof (induction idx s rule: init_log_buffers.induct)
  case (1 idx s)
  show ?case
  proof (cases "idx < worker_count s")
    case True
    from "1.IH" [OF True] obtain f where
      "init_log_buffers (Suc idx)
         (s\<lparr>kore_workers := (kore_workers s)(idx := (kore_workers s idx)\<lparr>kw_lb_offset := 0\<rparr>)\<rparr>)
       = s\<lparr>kore_workers := (kore_workers s)(idx := (kore_workers s idx)\<lparr>kw_lb_offset := 0\<rparr>)\<rparr>
          \<lparr>kore_workers := f\<rparr>"
      by blast
    with True have "init_log_buffers idx s = s\<lparr>kore_workers := f\<rparr>"
      by (simp add: init_log_buffers_step)
    then show ?thesis by blast
  next
    case False
    then have "init_log_buffers idx s = s\<lparr>kore_workers := kore_workers s\<rparr>"
      by (simp add: init_log_buffers_stop)
    then show ?thesis by blast
  qed
qed

lemma init_log_buffers_frame [simp]:
  "worker_count (init_log_buffers idx s) = worker_count s"
  "worker_no_lock (init_log_buffers idx s) = worker_no_lock s"
  "accept_lock (init_log_buffers idx s) = accept_lock s"
  "trace (init_log_buffers idx s) = trace s"
  "cpu_count (init_log_buffers idx s) = cpu_count s"
  "keymgr_active (init_log_buffers idx s) = keymgr_active s"
proof -
  obtain f where "init_log_buffers idx s = s\<lparr>kore_workers := f\<rparr>"
    using init_log_buffers_only_workers by blast
  then show
    "worker_count (init_log_buffers idx s) = worker_count s"
    "worker_no_lock (init_log_buffers idx s) = worker_no_lock s"
    "accept_lock (init_log_buffers idx s) = accept_lock s"
    "trace (init_log_buffers idx s) = trace s"
    "cpu_count (init_log_buffers idx s) = cpu_count s"
    "keymgr_active (init_log_buffers idx s) = keymgr_active s"
    by simp_all
qed

lemma spawn_frame [simp]:
  "worker_count (state_of (kore_worker_spawn idx wid cpu env s)) = worker_count s"
  "worker_no_lock (state_of (kore_worker_spawn idx wid cpu env s)) = worker_no_lock s"
  "accept_lock (state_of (kore_worker_spawn idx wid cpu env s)) = accept_lock s"
  "worker_policy (state_of (kore_worker_spawn idx wid cpu env s)) = worker_policy s"
  by (cases env, simp_all add: kore_worker_spawn_def Let_def)+

lemma init_worker_count:
  "worker_count (state_of (kore_worker_init h shm env b)) =
     (if worker_count b = 0 then cpu_count b else worker_count b) + 2"
proof (cases shm)
  case ShmAttached
  have "worker_count (state_of (kore_worker_init h ShmAttached env b)) = worker_count (init_segment b)"
    by (rule kore_worker_init_invariant) simp_all
  with ShmAttached show ?thesis by (simp add: init_segment_def)
qed (simp_all add: kore_worker_init_def Let_def)

lemma init_no_lock:
  "worker_no_lock (state_of (kore_worker_init h shm env b)) = 0"
proof (cases shm)
  case ShmAttached
  have "worker_no_lock (state_of (kore_worker_init h ShmAttached env b)) = 0"
    by (rule kore_worker_init_invariant) (simp_all add: init_segment_def)
  with ShmAttached show ?thesis by simp
qed (simp_all add: kore_worker_init_def Let_def)

lemma init_lock_free:
  "accept_lock (state_of (kore_worker_init h ShmAttached env b)) = \<lparr>lock = 0, current = 0\<rparr>"
  by (rule kore_worker_init_invariant) (simp_all add: init_segment_def)

subsection \<open>The lock word\<close>

lemma unlock_lock:
  "lock (accept_lock (worker_unlock s)) =
     (if lock (accept_lock s) = 1 then 0 else lock (accept_lock s))"
  by (simp add: worker_unlock_def sync_bool_compare_and_swap_def)

lemma unlock_current: "current (accept_lock (worker_unlock s)) = 0"
  by (simp add: worker_unlock_def sync_bool_compare_and_swap_def)


lemma unlock_frame [simp]:
  "kore_workers (worker_unlock s) = kore_workers s"
  "worker (worker_unlock s) = worker s"
  "worker_count (worker_unlock s) = worker_count s"
  "worker_no_lock (worker_unlock s) = worker_no_lock s"
  "worker_policy (worker_unlock s) = worker_policy s"
  "has_lock (worker_unlock s) = has_lock s"
  by (simp_all add: worker_unlock_def sync_bool_compare_and_swap_def has_lock_def)

lemma trylock_lock:
  "lock (accept_lock (snd (worker_trylock s))) =
     (if lock (accept_lock s) = 0 then 1 else lock (accept_lock s))"
  by (simp add: worker_trylock_def sync_bool_compare_and_swap_def)

lemma trylock_result:
  "fst (worker_trylock s) = (if lock (accept_lock s) = 0 then 1 else 0)"
  by (simp add: worker_trylock_def sync_bool_compare_and_swap_def)

lemma trylock_current:
  "current (accept_lock (snd (worker_trylock s))) =
     (if lock (accept_lock s) = 0 then kw_pid (kore_workers s (worker s))
      else current (accept_lock s))"
  by (simp add: worker_trylock_def sync_bool_compare_and_swap_def)

lemma trylock_trace:
  "trace (snd (worker_trylock s)) = trace s @ [Cas 0 1 (lock (accept_lock s) = 0)]"
  by (simp add: worker_trylock_def sync_bool_compare_and_swap_def)

text \<open>The operations on the lock keep the lock word well formed.\<close>

lemma wlock_valid_trylock: "wlock_valid s \<Longrightarrow> wlock_valid (snd (worker_trylock s))"
  by (auto simp: wlock_valid_def trylock_lock)

lemma wlock_valid_unlock: "wlock_valid s \<Longrightarrow> wlock_valid (worker_unlock s)"
  by (auto simp: wlock_valid_def unlock_lock)

lemma wlock_valid_init:
  "wlock_valid (state_of (kore_worker_init h ShmAttached env s))"
  by (simp add: wlock_valid_def init_lock_free)

lemma wlock_valid_obtain:
  "wlock_valid s \<Longrightarrow> wlock_valid (snd (worker_acceptlock_obtain s))"
  using wlock_valid_trylock [of s]
  by (auto simp: worker_acceptlock_obtain_def wlock_valid_def split: prod.splits)

lemma wlock_valid_release:
  "wlock_valid s \<Longrightarrow> wlock_valid (worker_acceptlock_release s)"
  using wlock_valid_unlock [of s]
  by (auto simp: worker_acceptlock_release_def wlock_valid_def)

lemma wlock_valid_make_busy:
  "wlock_valid s \<Longrightarrow> wlock_valid (kore_worker_make_busy s)"
  using wlock_valid_unlock [of s]
  by (auto simp: kore_worker_make_busy_def wlock_valid_def)

text \<open>
  Claim C9. Whatever the state of the lock region - free, or held by this or by another
  process - \<open>worker_trylock\<close> followed at once by \<open>worker_unlock\<close> in the same process
  leaves the lock word at \<open>0\<close> (and no holder recorded).
\<close>

theorem trylock_unlock_leaves_lock_free:
  assumes "wlock_valid s"
  shows "lock (accept_lock (worker_unlock (snd (worker_trylock s)))) = 0
         \<and> current (accept_lock (worker_unlock (snd (worker_trylock s)))) = 0"
  using assms by (auto simp: wlock_valid_def unlock_lock unlock_current trylock_lock)

theorem trylock_unlock_leaves_lock_free_witness:
  "wlock_valid ((ex_worker 2 2)\<lparr>accept_lock := \<lparr>lock = 1, current = 103\<rparr>\<rparr>)
   \<and> fst (worker_trylock ((ex_worker 2 2)\<lparr>accept_lock := \<lparr>lock = 1, current = 103\<rparr>\<rparr>)) = 0
   \<and> lock (accept_lock (worker_unlock (snd (worker_trylock
         ((ex_worker 2 2)\<lparr>accept_lock := \<lparr>lock = 1, current = 103\<rparr>\<rparr>))))) = 0
   \<and> current (accept_lock (worker_unlock (snd (worker_trylock
         ((ex_worker 2 2)\<lparr>accept_lock := \<lparr>lock = 1, current = 103\<rparr>\<rparr>))))) = 0"
proof -
  have v: "wlock_valid ((ex_worker 2 2)\<lparr>accept_lock := \<lparr>lock = 1, current = 103\<rparr>\<rparr>)"
    by (simp add: wlock_valid_def)
  have r: "fst (worker_trylock ((ex_worker 2 2)\<lparr>accept_lock := \<lparr>lock = 1, current = 103\<rparr>\<rparr>)) = 0"
    by (simp add: trylock_result)
  from trylock_unlock_leaves_lock_free [OF v] v r show ?thesis by simp
qed

subsection \<open>Obtaining the accept lock\<close>

text \<open>
  Claim C10. A worker whose \<open>has_lock\<close> is already \<open>1\<close> gets \<open>1\<close> back from
  \<open>worker_acceptlock_obtain\<close> and its state, the shared lock region and the trace of
  compare-and-swap attempts included, is left exactly as it was.
\<close>

theorem acceptlock_obtain_holding:
  assumes "has_lock s = 1"
  shows "worker_acceptlock_obtain s = (1, s)"
  using assms by (simp add: worker_acceptlock_obtain_def)

theorem acceptlock_obtain_holding_witness:
  "has_lock (snd (worker_acceptlock_obtain (ex_worker 2 2))) = 1
   \<and> worker_acceptlock_obtain (snd (worker_acceptlock_obtain (ex_worker 2 2)))
       = (1, snd (worker_acceptlock_obtain (ex_worker 2 2)))"
proof -
  have h: "has_lock (snd (worker_acceptlock_obtain (ex_worker 2 2))) = 1"
    by (simp add: ex_eval)
  from acceptlock_obtain_holding [OF h] h show ?thesis by simp
qed

lemma cas_events_append [simp]: "cas_events (xs @ ys) = cas_events xs @ cas_events ys"
  by (induction xs rule: cas_events.induct) simp_all

text \<open>
  Claim C1, as stated, fails: a configured pool of two workers is "at or below three",
  yet \<open>kore_worker_init\<close> adds the two reserved slots before the comparison with
  \<open>WORKER_SOLO_COUNT\<close>, so \<open>worker_count\<close> is 4 and the worker of slot 2 attempts the
  compare-and-swap on its first call of \<open>worker_acceptlock_obtain\<close>.
\<close>

theorem solo_threshold_counterexample:
  "worker_count (ex_boot 2 2) \<le> WORKER_SOLO_COUNT
   \<and> worker_count (ex_worker 2 2) = 4
   \<and> cas_events (trace (snd (worker_acceptlock_obtain (ex_worker 2 2)))) = [Cas 0 1 True]"
  by (simp add: ex_eval worker_acceptlock_obtain_def worker_trylock_def
      sync_bool_compare_and_swap_def)

text \<open>
  Outside the solo pool, with listeners, below both limits and without the lock, the
  compare-and-swap is attempted.
\<close>

lemma acceptlock_obtain_attempts_cas:
  assumes "has_lock s \<noteq> 1" and "worker_count s \<noteq> WORKER_SOLO_COUNT" and "worker_no_lock s \<noteq> 1"
    and "worker_active_connections s < worker_max_connections s"
    and "http_request_count s < http_request_limit s"
  shows "trace (snd (worker_acceptlock_obtain s)) = trace s @ [Cas 0 1 (lock (accept_lock s) = 0)]"
  using assms trylock_trace [of s]
  by (auto simp: worker_acceptlock_obtain_def not_le split: prod.splits)

text \<open>
  Claim C1, amended. The solo threshold is met when \<open>worker_count\<close>, after
  \<open>kore_worker_init\<close> has added the two reserved slots, equals \<open>WORKER_SOLO_COUNT\<close>: a pool of
  exactly one network worker (configured as 1, or as 0 on a host with one cpu). Such a
  worker gets \<open>1\<close> from every \<open>worker_acceptlock_obtain\<close> with \<open>has_lock\<close> set, the lock
  region and the trace untouched; the release check and \<open>kore_worker_make_busy\<close> do
  nothing; and the first round of the loop leaves \<open>has_lock\<close> set without a
  compare-and-swap.
\<close>

theorem solo_pool_skips_trylock:
  assumes "(if worker_count b = 0 then cpu_count b else worker_count b) = 1"
    and "worker_count s = worker_count (state_of (kore_worker_init h shm env b))"
  shows "fst (worker_acceptlock_obtain s) = 1
         \<and> has_lock (snd (worker_acceptlock_obtain s)) = 1
         \<and> trace (snd (worker_acceptlock_obtain s)) = trace s
         \<and> accept_lock (snd (worker_acceptlock_obtain s)) = accept_lock s
         \<and> worker_acceptlock_release s = s
         \<and> kore_worker_make_busy s = s
         \<and> (accept_avail s \<noteq> 0 \<longrightarrow>
              has_lock (snd (entry_obtain had_lock s)) \<noteq> 0
              \<and> cas_events (trace (snd (entry_obtain had_lock s))) = cas_events (trace s))"
proof -
  from assms have solo: "worker_count s = WORKER_SOLO_COUNT"
    by (simp add: init_worker_count WORKER_SOLO_COUNT_def)
  then have ob: "worker_acceptlock_obtain s = (1, if has_lock s = 1 then s else set_has_lock 1 s)"
    by (simp add: worker_acceptlock_obtain_def)
  have "accept_avail s \<noteq> 0 \<Longrightarrow> has_lock (snd (entry_obtain had_lock s)) \<noteq> 0"
    by (simp add: entry_obtain_def ob Let_def has_lock_def set_has_lock_def emit_def)
  moreover have "cas_events (trace (snd (entry_obtain had_lock s))) = cas_events (trace s)"
    by (simp add: entry_obtain_def ob Let_def set_has_lock_def emit_def)
  ultimately show ?thesis
    using solo by (simp add: ob worker_acceptlock_release_def kore_worker_make_busy_def)
qed

theorem solo_pool_skips_trylock_witness:
  "(if worker_count (ex_boot 1 4) = 0 then cpu_count (ex_boot 1 4) else worker_count (ex_boot 1 4)) = 1
   \<and> worker_count (ex_worker 1 4)
       = worker_count (state_of (kore_worker_init ex_h ShmAttached ex_forks (ex_boot 1 4)))
   \<and> accept_avail (ex_worker 1 4) \<noteq> 0
   \<and> fst (worker_acceptlock_obtain (ex_worker 1 4)) = 1
   \<and> has_lock (snd (worker_acceptlock_obtain (ex_worker 1 4))) = 1
   \<and> trace (snd (worker_acceptlock_obtain (ex_worker 1 4))) = trace (ex_worker 1 4)
   \<and> has_lock (snd (entry_obtain 0 (ex_worker 1 4))) \<noteq> 0
   \<and> cas_events (trace (snd (entry_obtain 0 (ex_worker 1 4)))) = cas_events (trace (ex_worker 1 4))"
proof -
  have a: "(if worker_count (ex_boot 1 4) = 0 then cpu_count (ex_boot 1 4)
            else worker_count (ex_boot 1 4)) = 1"
    by (simp add: ex_boot_def)
  have b: "worker_count (ex_worker 1 4)
           = worker_count (state_of (kore_worker_init ex_h ShmAttached ex_forks (ex_boot 1 4)))"
    by (simp add: ex_eval)
  have c: "accept_avail (ex_worker 1 4) \<noteq> 0"
    by (simp add: ex_eval)
  from solo_pool_skips_trylock [OF a b, of 0] a b c show ?thesis by blast
qed

subsection \<open>Releasing the accept lock\<close>












text \<open>In the loop, a release switches the acceptance of connections off.\<close>

lemma entry_release_releases:
  assumes "has_lock s = 1" and "worker_count s \<noteq> WORKER_SOLO_COUNT" and "worker_no_lock s \<noteq> 1"
    and "worker_max_connections s \<le> worker_active_connections s
         \<or> http_request_limit s \<le> http_request_count s"
  shows "entry_release 1 s = (0, emit DisableAccept (worker_acceptlock_release s))"
  using assms
  by (auto simp: entry_release_def worker_acceptlock_release_def Let_def not_less)

subsection \<open>Start-up of the pool\<close>

text \<open>
  Claim C2, as stated, fails on the cpus: \<open>kore_worker_init\<close> starts its cpu counter at 1,
  not at 0 (cpu 0 is where the key manager is put), and wraps to 0 when the counter
  reaches \<open>cpu_count\<close>. On a host with two cpus the workers 1 and 2 are spawned on the
  cpus 1 and 0.
\<close>

theorem init_two_workers_counterexample:
  "worker_count (ex_boot 2 2) = 2 \<and> \<not> keymgr_active (ex_boot 2 2)
   \<and> trace (ex_pool 2 2) = [Fork 2 1 1, Fork 3 2 0]
   \<and> kw_cpu (kore_workers (ex_pool 2 2) 2) = 1
   \<and> kw_cpu (kore_workers (ex_pool 2 2) 3) = 0"
  by (simp add: ex_eval)

text \<open>
  Claim C2, amended. With \<open>worker_count = 2\<close>, no key manager and every fork succeeding,
  \<open>kore_worker_init\<close> returns after exactly two spawns: the slots 2 and 3 hold the workers
  with the ids 1 and 2, running, with the pids \<open>fork\<close> returned, and every other slot is
  still zero. The cpus are 1 and 2 on a host with three cpus or more, 1 and 0 with two
  cpus, and 0 and 0 with one.
\<close>

theorem init_two_workers:
  assumes "worker_count b = 2" and "\<not> keymgr_active b"
    and "env 2 = Forked p" and "env 3 = Forked q"
  shows "\<exists>s. kore_worker_init h ShmAttached env b = Returns s
     \<and> trace s = trace b @
          [Fork 2 1 (if cpu_count b \<le> 1 then 0 else 1),
           Fork 3 2 (if cpu_count b \<le> 2 then 0 else 2)]
     \<and> kore_workers s =
          (\<lambda>idx. zero_worker)
            (2 := zero_worker\<lparr>kw_id := 1, kw_cpu := (if cpu_count b \<le> 1 then 0 else 1),
                               kw_pid := p, kw_running := 1\<rparr>,
             3 := zero_worker\<lparr>kw_id := 2, kw_cpu := (if cpu_count b \<le> 2 then 0 else 2),
                               kw_pid := q, kw_running := 1\<rparr>)"
  using assms
  by (simp add: kore_worker_init_def init_spawn_workers_step init_spawn_workers_stop
      init_log_buffers_step init_log_buffers_stop KORE_WORKER_BASE_def kore_worker_spawn_def
      emit_def Let_def zero_worker_def fun_eq_iff)

theorem init_two_workers_witness:
  "worker_count (ex_boot 2 4) = 2 \<and> \<not> keymgr_active (ex_boot 2 4)
   \<and> ex_forks 2 = Forked 102 \<and> ex_forks 3 = Forked 103
   \<and> trace (ex_pool 2 4) = [Fork 2 1 1, Fork 3 2 2]
   \<and> kore_workers (ex_pool 2 4) =
        (\<lambda>idx. zero_worker)
          (2 := zero_worker\<lparr>kw_id := 1, kw_cpu := 1, kw_pid := 102, kw_running := 1\<rparr>,
           3 := zero_worker\<lparr>kw_id := 2, kw_cpu := 2, kw_pid := 103, kw_running := 1\<rparr>)"
proof -
  have a: "worker_count (ex_boot 2 4) = 2" and b: "\<not> keymgr_active (ex_boot 2 4)"
    and c: "ex_forks 2 = Forked 102" and d: "ex_forks 3 = Forked 103"
    and e: "cpu_count (ex_boot 2 4) = 4" and f: "trace (ex_boot 2 4) = []"
    by (simp_all add: ex_boot_def ex_forks_def)
  from init_two_workers [OF a b c d, of ex_h] obtain s where
    "kore_worker_init ex_h ShmAttached ex_forks (ex_boot 2 4) = Returns s"
    "trace s = trace (ex_boot 2 4) @
       [Fork 2 1 (if cpu_count (ex_boot 2 4) \<le> 1 then 0 else 1),
        Fork 3 2 (if cpu_count (ex_boot 2 4) \<le> 2 then 0 else 2)]"
    "kore_workers s =
       (\<lambda>idx. zero_worker)
         (2 := zero_worker\<lparr>kw_id := 1, kw_cpu := (if cpu_count (ex_boot 2 4) \<le> 1 then 0 else 1),
                            kw_pid := 102, kw_running := 1\<rparr>,
          3 := zero_worker\<lparr>kw_id := 2, kw_cpu := (if cpu_count (ex_boot 2 4) \<le> 2 then 0 else 2),
                            kw_pid := 103, kw_running := 1\<rparr>)"
    by blast
  then have "trace (ex_pool 2 4) = [Fork 2 1 1, Fork 3 2 2]"
    and "kore_workers (ex_pool 2 4) =
        (\<lambda>idx. zero_worker)
          (2 := zero_worker\<lparr>kw_id := 1, kw_cpu := 1, kw_pid := 102, kw_running := 1\<rparr>,
           3 := zero_worker\<lparr>kw_id := 2, kw_cpu := 2, kw_pid := 103, kw_running := 1\<rparr>)"
    by (simp_all add: ex_pool_def e f)
  with a b c d show ?thesis by simp
qed

subsection \<open>Reaping\<close>

lemma raise_sigterm_frame [simp]:
  "accept_lock (raise_sigterm env s) = accept_lock s"
  "kore_workers (raise_sigterm env s) = kore_workers s"
  "worker_count (raise_sigterm env s) = worker_count s"
  "worker_no_lock (raise_sigterm env s) = worker_no_lock s"
  "worker_policy (raise_sigterm env s) = worker_policy s"
  by (simp_all add: raise_sigterm_def Let_def)

lemma worker_reaper_loop_finds:
  assumes "j \<le> idx" and "idx < worker_count s" and "kw_pid (kore_workers s idx) = pid"
    and "\<forall>k. j \<le> k \<and> k < idx \<longrightarrow> kw_pid (kore_workers s k) \<noteq> pid"
  shows "worker_reaper_loop h env pid status j s = worker_reaper_slot h env pid status idx s"
  using assms
proof (induction "idx - j" arbitrary: j)
  case 0
  then have "j = idx" by simp
  with 0 show ?case by (simp add: worker_reaper_loop_hit)
next
  case (Suc n)
  then have lt: "j < idx" by simp
  with Suc.prems have "kw_pid (kore_workers s j) \<noteq> pid" and "j < worker_count s" by auto
  then have "worker_reaper_loop h env pid status j s = worker_reaper_loop h env pid status (Suc j) s"
    by (simp add: worker_reaper_loop_skip)
  moreover have "worker_reaper_loop h env pid status (Suc j) s = worker_reaper_slot h env pid status idx s"
    using Suc.hyps Suc.prems lt by (intro Suc.hyps(1)) auto
  ultimately show ?case by simp
qed

lemma worker_reaper_restart_lock:
  assumes "kw_pid (kore_workers s idx) = current (accept_lock s)" and "worker_no_lock s = 0"
  shows "accept_lock (state_of (worker_reaper_restart h env idx s)) = accept_lock (worker_unlock s)"
proof -
  define s2 where "s2 = (case kw_active_hdlr (kore_workers s idx) of
      None \<Rightarrow> worker_unlock s
    | Some f \<Rightarrow>
        kore_log LOG_NOTICE ''hdlr %s has caused %d error(s)''
          ((worker_unlock s)\<lparr>hdlr_errors :=
             (hdlr_errors (worker_unlock s))(f := hdlr_errors (worker_unlock s) f + 1)\<rparr>))"
  define s3 where "s3 = emit (MsgParentRemove (kw_id (kore_workers s idx)))
      (set_worker idx (\<lambda>kw. kw\<lparr>kw_restarted := 1\<rparr>)
        (kore_log LOG_NOTICE ''restarting worker %d'' s2))"
  define r where "r = kore_worker_spawn idx (kw_id (kore_workers s3 idx))
      (kw_cpu (kore_workers s3 idx)) (respawn env) s3"
  have l2: "accept_lock s2 = accept_lock (worker_unlock s)"
    by (simp add: s2_def split: option.splits)
  then have l3: "accept_lock s3 = accept_lock (worker_unlock s)"
    by (simp add: s3_def)
  then have lr: "accept_lock (state_of r) = accept_lock (worker_unlock s)"
    by (simp add: r_def)
  have eq: "worker_reaper_restart h env idx s =
     (if worker_policy s2 = KORE_WORKER_POLICY_TERMINATE h
      then Returns (raise_sigterm env
             (kore_log LOG_NOTICE ''worker policy is 'terminate', stopping''
               (set_worker idx (\<lambda>kw. kw\<lparr>kw_pid := 0\<rparr>) s2)))
      else (case r of
              Exits s4 \<Rightarrow> Exits s4
            | Returns s4 \<Rightarrow> Returns (emit (MsgParentAdd (kw_id (kore_workers s4 idx))) s4)))"
    using assms by (simp add: worker_reaper_restart_def Let_def s2_def s3_def r_def)
  show ?thesis
    using l2 lr by (cases r) (simp_all add: eq)
qed

lemma reaper_slot_lock:
  assumes nk: "kw_id (kore_workers s idx) \<noteq> KORE_WORKER_KEYMGR h"
    and na: "kw_id (kore_workers s idx) \<noteq> KORE_WORKER_ACME h"
    and unclean: "\<not> (WIFEXITED status \<and> WEXITSTATUS status = 0)"
    and holder: "kw_pid (kore_workers s idx) = current (accept_lock s)"
    and nolock: "worker_no_lock s = 0"
  shows "accept_lock (state_of (worker_reaper_slot h env pid status idx s))
         = accept_lock (worker_unlock s)"
proof -
  define s2 where "s2 = set_worker idx (\<lambda>kw. kw\<lparr>kw_running := 0\<rparr>)
      (if \<not> kore_quiet s
       then kore_log LOG_NOTICE ''worker %s (%d) exited with status %d'' s else s)"
  define s4 where "s4 = (if WIFSIGNALED status \<and> WTERMSIG status = SIGSYS
      then kore_log LOG_NOTICE ''worker %d died from sandbox violation''
             (kore_log LOG_NOTICE ''worker %d (pid: %d) (hdlr: %s) gone'' s2)
      else kore_log LOG_NOTICE ''worker %d (pid: %d) (hdlr: %s) gone'' s2)"
  have f4: "accept_lock s4 = accept_lock s" "worker_no_lock s4 = worker_no_lock s"
    "kw_pid (kore_workers s4 idx) = kw_pid (kore_workers s idx)"
    "kw_id (kore_workers s4 idx) = kw_id (kore_workers s idx)"
    by (simp_all add: s4_def s2_def)
  have "worker_reaper_slot h env pid status idx s = worker_reaper_gone h env status idx s2"
    using unclean by (auto simp: worker_reaper_slot_def Let_def s2_def)
  also have "\<dots> = worker_reaper_restart h env idx s4"
    using nk na f4 by (simp add: worker_reaper_gone_def Let_def s4_def)
  finally have "accept_lock (state_of (worker_reaper_slot h env pid status idx s))
      = accept_lock (worker_unlock s4)"
    using holder nolock f4 by (simp add: worker_reaper_restart_lock)
  also have "\<dots> = accept_lock (worker_unlock s)"
    using f4 by (simp add: worker_unlock_def sync_bool_compare_and_swap_def)
  finally show ?thesis .
qed

text \<open>
  A property of the state that every step of \<open>worker_reaper\<close> keeps is kept by
  \<open>worker_reaper\<close>: the steps are the trace, the updates of a slot that leave its \<open>id\<close>
  and \<open>cpu\<close> alone, \<open>worker_unlock\<close>, the error counters, and the spawn of a slot with the
  \<open>id\<close> and \<open>cpu\<close> it has.
\<close>

lemma worker_reaper_restart_invariant:
  assumes init: "P s"
    and emit: "\<And>e t. P t \<Longrightarrow> P (emit e t)"
    and setw: "\<And>f t. P t \<Longrightarrow> (\<And>kw. kw_id (f kw) = kw_id kw \<and> kw_cpu (f kw) = kw_cpu kw)
                 \<Longrightarrow> P (set_worker idx f t)"
    and unlock: "\<And>t. P t \<Longrightarrow> P (worker_unlock t)"
    and errs: "\<And>g t. P t \<Longrightarrow> P (t\<lparr>hdlr_errors := g\<rparr>)"
    and spawn: "\<And>e t. P t \<Longrightarrow>
        P (state_of (kore_worker_spawn idx (kw_id (kore_workers t idx))
                       (kw_cpu (kore_workers t idx)) e t))"
  shows "P (state_of (worker_reaper_restart h env idx s))"
proof -
  have log: "\<And>l f t. P t \<Longrightarrow> P (kore_log l f t)"
    by (simp add: kore_log_def emit)
  have rs: "\<And>t. P t \<Longrightarrow> P (raise_sigterm env t)"
    by (simp add: raise_sigterm_def Let_def emit log)
  define s1 where "s1 = (if kw_pid (kore_workers s idx) = current (accept_lock s)
                            \<and> worker_no_lock s = 0
                         then worker_unlock s else s)"
  define s2 where "s2 = (case kw_active_hdlr (kore_workers s idx) of
      None \<Rightarrow> s1
    | Some f \<Rightarrow>
        kore_log LOG_NOTICE ''hdlr %s has caused %d error(s)''
          (s1\<lparr>hdlr_errors := (hdlr_errors s1)(f := hdlr_errors s1 f + 1)\<rparr>))"
  define s3 where "s3 = emit (MsgParentRemove (kw_id (kore_workers s idx)))
      (set_worker idx (\<lambda>kw. kw\<lparr>kw_restarted := 1\<rparr>)
        (kore_log LOG_NOTICE ''restarting worker %d'' s2))"
  define r where "r = kore_worker_spawn idx (kw_id (kore_workers s3 idx))
      (kw_cpu (kore_workers s3 idx)) (respawn env) s3"
  have eq: "worker_reaper_restart h env idx s =
     (if worker_policy s2 = KORE_WORKER_POLICY_TERMINATE h
      then Returns (raise_sigterm env
             (kore_log LOG_NOTICE ''worker policy is 'terminate', stopping''
               (set_worker idx (\<lambda>kw. kw\<lparr>kw_pid := 0\<rparr>) s2)))
      else (case r of
              Exits s4 \<Rightarrow> Exits s4
            | Returns s4 \<Rightarrow> Returns (emit (MsgParentAdd (kw_id (kore_workers s4 idx))) s4)))"
    unfolding worker_reaper_restart_def Let_def s1_def s2_def s3_def r_def by (rule refl)
  have p1: "P s1" using init by (simp add: s1_def unlock)
  have p2: "P s2" using p1 by (simp add: s2_def log errs split: option.splits)
  have p3: "P s3" unfolding s3_def
    by (rule emit, rule setw, rule log, rule p2) simp
  have pr: "P (state_of r)" unfolding r_def by (rule spawn [OF p3])
  have a: "P (raise_sigterm env
             (kore_log LOG_NOTICE ''worker policy is 'terminate', stopping''
               (set_worker idx (\<lambda>kw. kw\<lparr>kw_pid := 0\<rparr>) s2)))"
    by (rule rs, rule log, rule setw, rule p2) simp
  have b: "P (state_of (case r of
              Exits s4 \<Rightarrow> Exits s4
            | Returns s4 \<Rightarrow> Returns (emit (MsgParentAdd (kw_id (kore_workers s4 idx))) s4)))"
    using pr by (cases r) (simp_all add: emit)
  from a b show ?thesis unfolding eq by simp
qed

lemma worker_reaper_slot_invariant:
  assumes init: "P s"
    and emit: "\<And>e t. P t \<Longrightarrow> P (emit e t)"
    and setw: "\<And>f t. P t \<Longrightarrow> (\<And>kw. kw_id (f kw) = kw_id kw \<and> kw_cpu (f kw) = kw_cpu kw)
                 \<Longrightarrow> P (set_worker idx f t)"
    and unlock: "\<And>t. P t \<Longrightarrow> P (worker_unlock t)"
    and errs: "\<And>g t. P t \<Longrightarrow> P (t\<lparr>hdlr_errors := g\<rparr>)"
    and spawn: "\<And>e t. P t \<Longrightarrow>
        P (state_of (kore_worker_spawn idx (kw_id (kore_workers t idx))
                       (kw_cpu (kore_workers t idx)) e t))"
  shows "P (state_of (worker_reaper_slot h env pid status idx s))"
proof -
  have log: "\<And>l f t. P t \<Longrightarrow> P (kore_log l f t)"
    by (simp add: kore_log_def emit)
  have rs: "\<And>t. P t \<Longrightarrow> P (raise_sigterm env t)"
    by (simp add: raise_sigterm_def Let_def emit log)
  have restart: "P (state_of (worker_reaper_restart h env idx t))" if "P t" for t
    using that emit setw unlock errs spawn
    by (rule worker_reaper_restart_invariant [where P = P])
  have gone: "P (state_of (worker_reaper_gone h env status idx t))" if t: "P t" for t
  proof -
    define t2 where "t2 = (if WIFSIGNALED status \<and> WTERMSIG status = SIGSYS
        then kore_log LOG_NOTICE ''worker %d died from sandbox violation''
               (kore_log LOG_NOTICE ''worker %d (pid: %d) (hdlr: %s) gone'' t)
        else kore_log LOG_NOTICE ''worker %d (pid: %d) (hdlr: %s) gone'' t)"
    have p2: "P t2" using t by (simp add: t2_def log)
    have a: "P (raise_sigterm env
                (set_worker idx (\<lambda>kw. kw\<lparr>kw_pid := 0\<rparr>)
                  (kore_log LOG_CRIT ''keymgr or acme process gone, stopping'' t2)))"
      by (rule rs, rule setw, rule log, rule p2) simp
    have eq: "worker_reaper_gone h env status idx t =
       (if kw_id (kore_workers t2 idx) = KORE_WORKER_KEYMGR h
           \<or> kw_id (kore_workers t2 idx) = KORE_WORKER_ACME h
        then Returns (raise_sigterm env
                (set_worker idx (\<lambda>kw. kw\<lparr>kw_pid := 0\<rparr>)
                  (kore_log LOG_CRIT ''keymgr or acme process gone, stopping'' t2)))
        else worker_reaper_restart h env idx t2)"
      unfolding worker_reaper_gone_def Let_def t2_def by (rule refl)
    from a restart [OF p2] show ?thesis unfolding eq by simp
  qed
  define s2 where "s2 = set_worker idx (\<lambda>kw. kw\<lparr>kw_running := 0\<rparr>)
      (if \<not> kore_quiet s
       then kore_log LOG_NOTICE ''worker %s (%d) exited with status %d'' s else s)"
  have p2: "P s2" unfolding s2_def by (rule setw) (simp_all add: init log)
  have a: "P (set_worker idx (\<lambda>kw. kw\<lparr>kw_pid := 0\<rparr>) s2)" by (rule setw [OF p2]) simp
  have eq: "worker_reaper_slot h env pid status idx s =
     (if WIFEXITED status \<and> WEXITSTATUS status = 0
      then Returns (set_worker idx (\<lambda>kw. kw\<lparr>kw_pid := 0\<rparr>) s2)
      else worker_reaper_gone h env status idx s2)"
    unfolding worker_reaper_slot_def Let_def s2_def by (rule refl)
  from a gone [OF p2] show ?thesis unfolding eq by simp
qed

lemma worker_reaper_invariant:
  assumes init: "P s"
    and emit: "\<And>e t. P t \<Longrightarrow> P (emit e t)"
    and setw: "\<And>idx f t. P t \<Longrightarrow> (\<And>kw. kw_id (f kw) = kw_id kw \<and> kw_cpu (f kw) = kw_cpu kw) \<Longrightarrow> P (set_worker idx f t)"
    and unlock: "\<And>t. P t \<Longrightarrow> P (worker_unlock t)"
    and errs: "\<And>g t. P t \<Longrightarrow> P (t\<lparr>hdlr_errors := g\<rparr>)"
    and spawn: "\<And>idx e t. P t \<Longrightarrow>
        P (state_of (kore_worker_spawn idx (kw_id (kore_workers t idx))
                       (kw_cpu (kore_workers t idx)) e t))"
  shows "P (state_of (worker_reaper h env pid status s))"
proof -
  have slot: "\<And>idx. P (state_of (worker_reaper_slot h env pid status idx s))"
    by (rule worker_reaper_slot_invariant [where P = P and s = s, OF init]) (fact emit setw unlock errs spawn)+
  have "P (state_of (worker_reaper_loop h env pid status idx s))" for idx
  proof (induction "worker_count s - idx" arbitrary: idx)
    case 0
    then show ?case using init by (simp add: worker_reaper_loop_stop)
  next
    case (Suc n)
    then have lt: "idx < worker_count s" by simp
    show ?case
    proof (cases "kw_pid (kore_workers s idx) = pid")
      case True
      with lt slot show ?thesis by (simp add: worker_reaper_loop_hit)
    next
      case False
      have "P (state_of (worker_reaper_loop h env pid status (Suc idx) s))"
        using Suc.hyps by (intro Suc.hyps(1)) simp
      with False lt show ?thesis by (simp add: worker_reaper_loop_skip)
    qed
  qed
  with init show ?thesis by (simp add: worker_reaper_def)
qed

lemma spawn_slot_ids:
  "slot_ids (state_of (kore_worker_spawn idx (kw_id (kore_workers t idx)) (kw_cpu (kore_workers t idx)) e t))
   = slot_ids t"
  by (cases e) (simp_all add: kore_worker_spawn_def Let_def slot_ids_def fun_eq_iff)

lemma worker_reaper_slot_ids:
  "slot_ids (state_of (worker_reaper h env pid status s)) = slot_ids s"
proof (rule worker_reaper_invariant [where P = "\<lambda>t. slot_ids t = slot_ids s"])
  show "slot_ids s = slot_ids s" by simp
next
  fix e t assume "slot_ids t = slot_ids s"
  then show "slot_ids (emit e t) = slot_ids s" by (simp add: slot_ids_def fun_eq_iff)
next
  fix idx t and f :: "kore_worker \<Rightarrow> kore_worker"
  assume "slot_ids t = slot_ids s" and "\<And>kw. kw_id (f kw) = kw_id kw \<and> kw_cpu (f kw) = kw_cpu kw"
  then show "slot_ids (set_worker idx f t) = slot_ids s"
    by (simp add: slot_ids_def fun_eq_iff)
next
  fix t assume "slot_ids t = slot_ids s"
  then show "slot_ids (worker_unlock t) = slot_ids s" by (simp add: slot_ids_def fun_eq_iff)
next
  fix g t assume "slot_ids t = slot_ids s"
  then show "slot_ids (t\<lparr>hdlr_errors := g\<rparr>) = slot_ids s" by (simp add: slot_ids_def fun_eq_iff)
next
  fix idx e t assume "slot_ids t = slot_ids s"
  then show "slot_ids (state_of (kore_worker_spawn idx (kw_id (kore_workers t idx))
                       (kw_cpu (kore_workers t idx)) e t)) = slot_ids s"
    by (simp add: spawn_slot_ids)
qed

lemma worker_reaper_no_lock:
  "worker_no_lock (state_of (worker_reaper h env pid status s)) = worker_no_lock s"
  by (rule worker_reaper_invariant [where P = "\<lambda>t. worker_no_lock t = worker_no_lock s"]) simp_all

lemma worker_reaper_wlock_valid:
  "wlock_valid s \<Longrightarrow> wlock_valid (state_of (worker_reaper h env pid status s))"
  by (rule worker_reaper_invariant [where P = wlock_valid])
     (simp_all add: wlock_valid_unlock, simp_all add: wlock_valid_def)

text \<open>
  A restart spawns the slot anew with the \<open>id\<close> and the \<open>cpu\<close> of its record; only the
  flags and the pid of the slot change.
\<close>

lemma worker_reaper_restart_respawns:
  assumes pol: "worker_policy s \<noteq> KORE_WORKER_POLICY_TERMINATE h"
    and fk: "respawn env = Forked p"
  shows "\<exists>s'. worker_reaper_restart h env idx s = Returns s'
     \<and> kore_workers s' =
          (kore_workers s)(idx := (kore_workers s idx)\<lparr>kw_restarted := 1, kw_has_lock := 0,
             kw_active_hdlr := None, kw_running := 1, kw_pid := p\<rparr>)
     \<and> Fork idx (kw_id (kore_workers s idx)) (kw_cpu (kore_workers s idx)) \<in> set (trace s')"
proof -
  define s1 where "s1 = (if kw_pid (kore_workers s idx) = current (accept_lock s)
                            \<and> worker_no_lock s = 0
                         then worker_unlock s else s)"
  define s2 where "s2 = (case kw_active_hdlr (kore_workers s idx) of
      None \<Rightarrow> s1
    | Some f \<Rightarrow>
        kore_log LOG_NOTICE ''hdlr %s has caused %d error(s)''
          (s1\<lparr>hdlr_errors := (hdlr_errors s1)(f := hdlr_errors s1 f + 1)\<rparr>))"
  define s3 where "s3 = emit (MsgParentRemove (kw_id (kore_workers s idx)))
      (set_worker idx (\<lambda>kw. kw\<lparr>kw_restarted := 1\<rparr>)
        (kore_log LOG_NOTICE ''restarting worker %d'' s2))"
  define r where "r = kore_worker_spawn idx (kw_id (kore_workers s3 idx))
      (kw_cpu (kore_workers s3 idx)) (respawn env) s3"
  have eq: "worker_reaper_restart h env idx s =
     (if worker_policy s2 = KORE_WORKER_POLICY_TERMINATE h
      then Returns (raise_sigterm env
             (kore_log LOG_NOTICE ''worker policy is 'terminate', stopping''
               (set_worker idx (\<lambda>kw. kw\<lparr>kw_pid := 0\<rparr>) s2)))
      else (case r of
              Exits s4 \<Rightarrow> Exits s4
            | Returns s4 \<Rightarrow> Returns (emit (MsgParentAdd (kw_id (kore_workers s4 idx))) s4)))"
    unfolding worker_reaper_restart_def Let_def s1_def s2_def s3_def r_def by (rule refl)
  have f1: "kore_workers s1 = kore_workers s" "worker_policy s1 = worker_policy s"
    by (simp_all add: s1_def)
  have f2: "kore_workers s2 = kore_workers s" "worker_policy s2 = worker_policy s"
    using f1 by (simp_all add: s2_def split: option.splits)
  have f3: "kore_workers s3 = (kore_workers s)(idx := (kore_workers s idx)\<lparr>kw_restarted := 1\<rparr>)"
    using f2 by (simp add: s3_def)
  define s4 where "s4 = emit (Fork idx (kw_id (kore_workers s idx)) (kw_cpu (kore_workers s idx)))
    (s3\<lparr>kore_workers := (kore_workers s)(idx := (kore_workers s idx)\<lparr>kw_restarted := 1,
        kw_has_lock := 0, kw_active_hdlr := None, kw_running := 1, kw_pid := p\<rparr>)\<rparr>)"
  have r: "r = Returns s4"
    using fk f3 by (simp add: r_def kore_worker_spawn_def Let_def s4_def)
  have "worker_reaper_restart h env idx s
        = Returns (emit (MsgParentAdd (kw_id (kore_workers s4 idx))) s4)"
    using pol f2 r by (simp add: eq)
  moreover have "kore_workers (emit (MsgParentAdd (kw_id (kore_workers s4 idx))) s4) =
     (kore_workers s)(idx := (kore_workers s idx)\<lparr>kw_restarted := 1, kw_has_lock := 0,
             kw_active_hdlr := None, kw_running := 1, kw_pid := p\<rparr>)"
    by (simp add: s4_def)
  moreover have "Fork idx (kw_id (kore_workers s idx)) (kw_cpu (kore_workers s idx))
      \<in> set (trace (emit (MsgParentAdd (kw_id (kore_workers s4 idx))) s4))"
    by (simp add: s4_def)
  ultimately show ?thesis by blast
qed

lemma worker_reaper_respawns:
  assumes "\<not> seccomp_trace env"
    and "idx < worker_count s"
    and "kw_pid (kore_workers s idx) = pid"
    and "\<forall>j<idx. kw_pid (kore_workers s j) \<noteq> pid"
    and nk: "kw_id (kore_workers s idx) \<noteq> KORE_WORKER_KEYMGR h"
    and na: "kw_id (kore_workers s idx) \<noteq> KORE_WORKER_ACME h"
    and unclean: "\<not> (WIFEXITED status \<and> WEXITSTATUS status = 0)"
    and pol: "worker_policy s \<noteq> KORE_WORKER_POLICY_TERMINATE h"
    and fk: "respawn env = Forked p"
  shows "\<exists>s'. worker_reaper h env pid status s = Returns s'
     \<and> kore_workers s' =
          (kore_workers s)(idx := (kore_workers s idx)\<lparr>kw_restarted := 1, kw_has_lock := 0,
             kw_active_hdlr := None, kw_running := 1, kw_pid := p\<rparr>)
     \<and> Fork idx (kw_id (kore_workers s idx)) (kw_cpu (kore_workers s idx)) \<in> set (trace s')"
proof -
  define s2 where "s2 = set_worker idx (\<lambda>kw. kw\<lparr>kw_running := 0\<rparr>)
      (if \<not> kore_quiet s
       then kore_log LOG_NOTICE ''worker %s (%d) exited with status %d'' s else s)"
  define s4 where "s4 = (if WIFSIGNALED status \<and> WTERMSIG status = SIGSYS
      then kore_log LOG_NOTICE ''worker %d died from sandbox violation''
             (kore_log LOG_NOTICE ''worker %d (pid: %d) (hdlr: %s) gone'' s2)
      else kore_log LOG_NOTICE ''worker %d (pid: %d) (hdlr: %s) gone'' s2)"
  have f4: "worker_policy s4 = worker_policy s"
    "kore_workers s4 = (kore_workers s)(idx := (kore_workers s idx)\<lparr>kw_running := 0\<rparr>)"
    by (simp_all add: s4_def s2_def)
  have "worker_reaper h env pid status s = worker_reaper_slot h env pid status idx s"
    using assms(1-4) by (simp add: worker_reaper_def worker_reaper_loop_finds)
  also have "\<dots> = worker_reaper_gone h env status idx s2"
    using unclean by (auto simp: worker_reaper_slot_def Let_def s2_def)
  also have "\<dots> = worker_reaper_restart h env idx s4"
    using nk na f4 by (simp add: worker_reaper_gone_def Let_def s4_def)
  finally have eq: "worker_reaper h env pid status s = worker_reaper_restart h env idx s4" .
  from pol f4 have "worker_policy s4 \<noteq> KORE_WORKER_POLICY_TERMINATE h" by simp
  from worker_reaper_restart_respawns [OF this fk, of idx] obtain s' where
    "worker_reaper_restart h env idx s4 = Returns s'"
    "kore_workers s' =
          (kore_workers s4)(idx := (kore_workers s4 idx)\<lparr>kw_restarted := 1, kw_has_lock := 0,
             kw_active_hdlr := None, kw_running := 1, kw_pid := p\<rparr>)"
    "Fork idx (kw_id (kore_workers s4 idx)) (kw_cpu (kore_workers s4 idx)) \<in> set (trace s')"
    by blast
  with f4 eq show ?thesis by simp
qed

text \<open>
  Claim C8. Whatever children exit, with whatever status, and however often slots are
  restarted, every slot keeps the \<open>id\<close> and the \<open>cpu\<close> it had: \<open>worker_reaper\<close> spawns the
  new process of a slot with the \<open>id\<close> and \<open>cpu\<close> found in its record.
\<close>

theorem slot_identity_stable:
  "slot_ids (state_of (worker_reaper_seq h rs s)) = slot_ids s"
proof (induction rs arbitrary: s)
  case Nil
  show ?case by simp
next
  case (Cons r rs)
  obtain env pid status where r: "r = (env, pid, status)" by (cases r)
  have one: "slot_ids (state_of (worker_reaper h env pid status s)) = slot_ids s"
    by (rule worker_reaper_slot_ids)
  show ?case
  proof (cases "worker_reaper h env pid status s")
    case (Exits s1)
    with one r show ?thesis by simp
  next
    case (Returns s1)
    with one Cons.IH [of s1] r show ?thesis by simp
  qed
qed

text \<open>
  Claim C6. A network worker whose pid is recorded in \<open>accept_lock.current\<close> exits
  uncleanly (any status but a clean exit with 0) and the supervisor reaps that pid: when
  \<open>worker_reaper\<close> is done - restart, terminate policy or a failed spawn alike - the lock
  word and \<open>accept_lock.current\<close> are both \<open>0\<close>. \<open>idx\<close> is the slot of the worker, the
  first one with that pid; the supervisor's own \<open>worker_no_lock\<close> is \<open>0\<close>, as
  \<open>kore_worker_init\<close> leaves it and \<open>worker_reaper\<close> keeps it.
\<close>

theorem reaper_releases_held_lock:
  assumes "\<not> seccomp_trace env"
    and "idx < worker_count s"
    and "kw_pid (kore_workers s idx) = pid"
    and "\<forall>j<idx. kw_pid (kore_workers s j) \<noteq> pid"
    and "kw_id (kore_workers s idx) \<noteq> KORE_WORKER_KEYMGR h"
    and "kw_id (kore_workers s idx) \<noteq> KORE_WORKER_ACME h"
    and "\<not> (WIFEXITED status \<and> WEXITSTATUS status = 0)"
    and "current (accept_lock s) = pid"
    and "worker_no_lock s = 0"
    and "wlock_valid s"
  shows "lock (accept_lock (state_of (worker_reaper h env pid status s))) = 0
         \<and> current (accept_lock (state_of (worker_reaper h env pid status s))) = 0"
proof -
  have "worker_reaper h env pid status s = worker_reaper_slot h env pid status idx s"
    using assms(1-4) by (simp add: worker_reaper_def worker_reaper_loop_finds)
  moreover have "accept_lock (state_of (worker_reaper_slot h env pid status idx s))
         = accept_lock (worker_unlock s)"
    using assms(3,5-9) by (intro reaper_slot_lock) simp_all
  ultimately show ?thesis
    using assms(10) by (auto simp: unlock_lock unlock_current wlock_valid_def)
qed

theorem reaper_releases_held_lock_witness:
  "\<not> seccomp_trace ex_reap_env \<and> 2 < worker_count ex_super
   \<and> kw_pid (kore_workers ex_super 2) = 102
   \<and> kw_pid (kore_workers ex_super 0) \<noteq> 102 \<and> kw_pid (kore_workers ex_super 1) \<noteq> 102
   \<and> kw_id (kore_workers ex_super 2) \<noteq> KORE_WORKER_KEYMGR ex_h
   \<and> kw_id (kore_workers ex_super 2) \<noteq> KORE_WORKER_ACME ex_h
   \<and> current (accept_lock ex_super) = 102 \<and> lock (accept_lock ex_super) = 1
   \<and> worker_no_lock ex_super = 0
   \<and> lock (accept_lock (state_of (worker_reaper ex_h ex_reap_env 102 (Signaled 9) ex_super))) = 0
   \<and> current (accept_lock (state_of (worker_reaper ex_h ex_reap_env 102 (Signaled 9) ex_super))) = 0"
proof -
  have a: "\<not> seccomp_trace ex_reap_env" "2 < worker_count ex_super"
    "kw_pid (kore_workers ex_super 2) = 102"
    "kw_id (kore_workers ex_super 2) \<noteq> KORE_WORKER_KEYMGR ex_h"
    "kw_id (kore_workers ex_super 2) \<noteq> KORE_WORKER_ACME ex_h"
    "\<not> (WIFEXITED (Signaled 9) \<and> WEXITSTATUS (Signaled 9) = 0)"
    "current (accept_lock ex_super) = 102" "worker_no_lock ex_super = 0"
    "lock (accept_lock ex_super) = 1"
    by (simp_all add: ex_super_def ex_reap_env_def ex_eval)
  have b: "kw_pid (kore_workers ex_super 0) \<noteq> 102" "kw_pid (kore_workers ex_super 1) \<noteq> 102"
    by (simp_all add: ex_super_def ex_reap_env_def ex_eval)
  then have c: "\<forall>j<2. kw_pid (kore_workers ex_super j) \<noteq> 102"
    by (simp add: less_2_cases_iff)
  have d: "wlock_valid ex_super" using a(9) by (simp add: wlock_valid_def)
  from reaper_releases_held_lock [OF a(1) a(2) a(3) c a(4) a(5) a(6) a(7) a(8) d] a b
  show ?thesis by simp
qed

subsection \<open>The timeout of the event wait\<close>

text \<open>
  Claim C4, as stated, fails: with a timer due in 5000 ms and a signal pending, \<open>netwait\<close>
  is 5000, not 10. The three short timeouts are applied only inside the test
  \<open>netwait == KORE_WAIT_INFINITE\<close>, that is when no timer is pending.
\<close>

theorem netwait_counterexample:
  "sig_recv ((ex_worker 2 2)\<lparr>sig_recv := 15\<rparr>) \<noteq> 0
   \<and> entry_netwait ex_h 5000 False ((ex_worker 2 2)\<lparr>sig_recv := 15\<rparr>) = 5000
   \<and> \<not> entry_netwait ex_h 5000 False ((ex_worker 2 2)\<lparr>sig_recv := 15\<rparr>) \<le> 10"
  by (simp add: entry_netwait_def ex_h_def)

text \<open>
  Claim C4, amended. While a timer is pending \<open>netwait\<close> is the time until it fires,
  whatever else is pending. Only when no timer is pending is it replaced: by 10 if a
  cooperative task is runnable, else by 100 if an HTTP request is in flight, else by 10
  if a signal is pending; it stays infinite exactly when no timer is pending and none of
  the three holds. (The value that stands for "infinite" is a constant of kore.h; it is
  neither 10 nor 100.)
\<close>

theorem netwait_value:
  assumes "KORE_WAIT_INFINITE h \<noteq> 10" and "KORE_WAIT_INFINITE h \<noteq> 100"
  shows "entry_netwait h next_run coro_pending s =
           (if next_run \<noteq> KORE_WAIT_INFINITE h then next_run
            else if coro_pending then 10
            else if http_request_count s \<noteq> 0 then 100
            else if sig_recv s \<noteq> 0 then 10
            else KORE_WAIT_INFINITE h)
         \<and> (entry_netwait h next_run coro_pending s = KORE_WAIT_INFINITE h \<longleftrightarrow>
              next_run = KORE_WAIT_INFINITE h \<and> \<not> coro_pending
              \<and> http_request_count s = 0 \<and> sig_recv s = 0)"
  using assms by (auto simp: entry_netwait_def Let_def word_gt_0)

theorem netwait_value_witness:
  "KORE_WAIT_INFINITE ex_h \<noteq> 10 \<and> KORE_WAIT_INFINITE ex_h \<noteq> 100
   \<and> entry_netwait ex_h (KORE_WAIT_INFINITE ex_h) False
        ((ex_boot 4 4)\<lparr>sig_recv := 15, http_request_count := 3\<rparr>) = 100
   \<and> entry_netwait ex_h (KORE_WAIT_INFINITE ex_h) False (ex_boot 4 4) = KORE_WAIT_INFINITE ex_h"
proof -
  have a: "KORE_WAIT_INFINITE ex_h \<noteq> 10" and b: "KORE_WAIT_INFINITE ex_h \<noteq> 100"
    by (simp_all add: ex_h_def)
  from netwait_value [OF a b, of "KORE_WAIT_INFINITE ex_h" False
         "(ex_boot 4 4)\<lparr>sig_recv := 15, http_request_count := 3\<rparr>"]
       netwait_value [OF a b, of "KORE_WAIT_INFINITE ex_h" False "ex_boot 4 4"]
       a b
  show ?thesis by (simp add: ex_boot_def)
qed

subsection \<open>Messages from the key manager\<close>

lemma entropy_recv_trace:
  "trace (worker_entropy_recv msg data s) =
     trace s
     @ (if msg_length msg \<noteq> 1024
        then [Log LOG_WARNING ''invalid entropy response (got:%zu - wanted:1024)''] else [])
     @ [RandPoll, RandSeed data (sint (ucast (msg_length msg) :: 32 word))]"
  by (simp add: worker_entropy_recv_def Let_def)

text \<open>
  Claim C3: an \<open>ENTROPY_RESP\<close> message of 4 bytes. The warning is logged, once, and then
  the generator is polled and seeded with the 4 bytes all the same: \<open>worker_entropy_recv\<close>
  has no \<open>return\<close> after its length check.
\<close>

theorem entropy_recv_short_is_seeded:
  "trace (worker_entropy_recv (ex_msg KORE_MSG_ENTROPY_RESP 4) [1, 2, 3, 4] ((ex_worker 2 2)\<lparr>trace := []\<rparr>))
   = [Log LOG_WARNING ''invalid entropy response (got:%zu - wanted:1024)'', RandPoll,
      RandSeed [1, 2, 3, 4] 4]"
  by (simp add: entropy_recv_trace ex_msg_def)

lemma size_check:
  fixes L H D :: "64 word"
  shows "(\<not> L < H \<and> L = H + D) \<longleftrightarrow> (H \<le> L \<and> unat L = unat H + unat D)"
proof
  assume a: "\<not> L < H \<and> L = H + D"
  then have le: "unat H \<le> unat (H + D)" by (auto simp: word_le_nat_alt not_less)
  have "unat (H + D) = (unat H + unat D) mod 2 ^ 64" by (simp add: unat_word_ariths)
  moreover have "unat H < 2 ^ 64" "unat D < 2 ^ 64" using unsigned_less [of H] unsigned_less [of D] by simp_all
  ultimately have "unat (H + D) = unat H + unat D"
    using le by (cases "unat H + unat D < 2 ^ 64") (simp_all add: mod_if split: if_splits)
  with a show "H \<le> L \<and> unat L = unat H + unat D" by (auto simp: not_less)
next
  assume b: "H \<le> L \<and> unat L = unat H + unat D"
  have "unat L < 2 ^ 64" using unsigned_less [of L] by simp
  with b have "unat H + unat D < 2 ^ LENGTH(64)" by simp
  then have "unat (H + D) = unat H + unat D" by (simp only: unat_add_lem)
  with b have "L = H + D" by (simp add: word_unat_eq_iff)
  with b show "\<not> L < H \<and> L = H + D" by (simp add: not_less)
qed

lemma find_domain_None_iff:
  "find_domain name ds j = None \<longleftrightarrow> (\<forall>d\<in>set ds. \<not> strcmp_eq (dom_domain d) name)"
  by (induction ds arbitrary: j) simp_all

lemma find_server_domain_None_iff:
  "find_server_domain name srvs i = None \<longleftrightarrow>
     (\<forall>srv\<in>set srvs. srv_tls srv = 0 \<or> (\<forall>d\<in>set (srv_domains srv). \<not> strcmp_eq (dom_domain d) name))"
proof (induction srvs arbitrary: i)
  case Nil
  show ?case by simp
next
  case (Cons srv srvs)
  show ?case
  proof (cases "find_domain name (srv_domains srv) 0")
    case None
    then have "\<forall>d\<in>set (srv_domains srv). \<not> strcmp_eq (dom_domain d) name"
      by (simp add: find_domain_None_iff)
    with None Cons.IH show ?thesis by simp
  next
    case (Some j)
    then have "\<not> (\<forall>d\<in>set (srv_domains srv). \<not> strcmp_eq (dom_domain d) name)"
      using find_domain_None_iff [of name "srv_domains srv" 0] by simp
    with Some Cons.IH show ?thesis by auto
  qed
qed

lemma find_domain_Some:
  "find_domain name ds j = Some k \<Longrightarrow>
     j \<le> k \<and> k - j < length ds \<and> strcmp_eq (dom_domain (ds ! (k - j))) name"
proof (induction ds arbitrary: j)
  case Nil
  then show ?case by simp
next
  case (Cons d ds)
  show ?case
  proof (cases "strcmp_eq (dom_domain d) name")
    case True
    with Cons.prems show ?thesis by simp
  next
    case False
    with Cons.prems have "find_domain name ds (Suc j) = Some k" by simp
    from Cons.IH [OF this] show ?thesis by (auto simp: Suc_diff_le)
  qed
qed

text \<open>What is stored through \<open>out\<close> is a domain of that name in a server with TLS.\<close>

lemma find_server_domain_Some:
  "find_server_domain name srvs i = Some (a, b) \<Longrightarrow>
     i \<le> a \<and> a - i < length srvs \<and> srv_tls (srvs ! (a - i)) \<noteq> 0
     \<and> b < length (srv_domains (srvs ! (a - i)))
     \<and> strcmp_eq (dom_domain (srv_domains (srvs ! (a - i)) ! b)) name"
proof (induction srvs arbitrary: i)
  case Nil
  then show ?case by simp
next
  case (Cons srv srvs)
  show ?case
  proof (cases "srv_tls srv \<noteq> 0 \<and> find_domain name (srv_domains srv) 0 \<noteq> None")
    case True
    then obtain j where j: "find_domain name (srv_domains srv) 0 = Some j" by blast
    with True Cons.prems have "a = i" "b = j" by simp_all
    with find_domain_Some [OF j] True show ?thesis by simp
  next
    case False
    with Cons.prems have "find_server_domain name srvs (Suc i) = Some (a, b)"
      by (auto split: option.splits if_splits)
    from Cons.IH [OF this] show ?thesis by (auto simp: Suc_diff_le)
  qed
qed

lemma verify_out_domain:
  assumes "kore_worker_keymgr_response_verify h msg req True s = (r, Some d, s')"
  shows "fst d < length (kore_servers s) \<and> srv_tls (kore_servers s ! fst d) \<noteq> 0
     \<and> snd d < length (srv_domains (kore_servers s ! fst d))
     \<and> strcmp_eq (dom_domain (get_domain d s)) (x509_domain req)"
proof -
  from assms have "find_server_domain (x509_domain req) (kore_servers s) 0 = Some (fst d, snd d)"
    by (auto simp: kore_worker_keymgr_response_verify_def split: if_splits option.splits)
  from find_server_domain_Some [OF this] show ?thesis by (simp add: get_domain_def)
qed

lemmas msg_eval = ex_req_def ex_msg_def ex_tls_worker_def kore_worker_keymgr_response_verify_def
  worker_keymgr_response_def strcmp_eq_def cstr_def nth_append

text \<open>
  Claim C5, as stated, fails: called without a place to store the domain (\<open>out == NULL\<close>),
  \<open>kore_worker_keymgr_response_verify\<close> returns before the search, and a well-formed
  message is accepted although no server at all is configured.
\<close>

theorem keymgr_response_verify_counterexample:
  "kore_servers (ex_worker 2 2) = []
   \<and> fst (kore_worker_keymgr_response_verify ex_h (ex_msg KORE_MSG_CERTIFICATE 267)
            (ex_req ''unknown.example'' [1, 2, 3]) False (ex_worker 2 2)) = KORE_RESULT_OK"
  by (simp add: msg_eval ex_eval)

text \<open>
  Claim C5, amended. The verification accepts a message exactly when its length is at
  least the size of the header and equals that size plus the declared \<open>data_len\<close> (as
  numbers: the sum cannot wrap), the last character of the domain slot is NUL, and -
  when the caller asks for the domain, as \<open>worker_keymgr_response\<close> does - a server with
  TLS has a domain of that name. An accepted message leaves the state as it is; a
  rejected one adds one warning to the log and nothing else, and \<open>worker_keymgr_response\<close>
  then does nothing more.
\<close>

theorem keymgr_response_verify_accepts:
  "(fst (kore_worker_keymgr_response_verify h msg req out s) = KORE_RESULT_OK \<longleftrightarrow>
      sizeof_kore_x509_msg h \<le> msg_length msg
      \<and> unat (msg_length msg) = unat (sizeof_kore_x509_msg h) + unat (x509_data_len req)
      \<and> x509_domain req ! KORE_DOMAINNAME_LEN h = CHR 0x00
      \<and> (out \<longrightarrow> (\<exists>srv\<in>set (kore_servers s). srv_tls srv \<noteq> 0
              \<and> (\<exists>d\<in>set (srv_domains srv). strcmp_eq (dom_domain d) (x509_domain req)))))
   \<and> (fst (kore_worker_keymgr_response_verify h msg req out s) = KORE_RESULT_OK \<longrightarrow>
        snd (snd (kore_worker_keymgr_response_verify h msg req out s)) = s)
   \<and> (fst (kore_worker_keymgr_response_verify h msg req out s) = KORE_RESULT_ERROR \<longrightarrow>
        (\<exists>fmt. snd (snd (kore_worker_keymgr_response_verify h msg req out s))
                = kore_log LOG_WARNING fmt s))
   \<and> (fst (kore_worker_keymgr_response_verify h msg req True s) = KORE_RESULT_ERROR \<longrightarrow>
        (\<exists>fmt. worker_keymgr_response h msg req s = kore_log LOG_WARNING fmt s))"
proof -
  let ?v = "kore_worker_keymgr_response_verify h msg req out s"
  let ?sz = "\<not> msg_length msg < sizeof_kore_x509_msg h
             \<and> msg_length msg = sizeof_kore_x509_msg h + x509_data_len req"
  have sz: "?sz \<longleftrightarrow> sizeof_kore_x509_msg h \<le> msg_length msg
      \<and> unat (msg_length msg) = unat (sizeof_kore_x509_msg h) + unat (x509_data_len req)"
    by (rule size_check)
  have a: "fst ?v = KORE_RESULT_OK \<longleftrightarrow>
      ?sz \<and> x509_domain req ! KORE_DOMAINNAME_LEN h = CHR 0x00
      \<and> (out \<longrightarrow> find_server_domain (x509_domain req) (kore_servers s) 0 \<noteq> None)"
    by (auto simp: kore_worker_keymgr_response_verify_def split: option.splits)
  have b: "find_server_domain (x509_domain req) (kore_servers s) 0 \<noteq> None \<longleftrightarrow>
     (\<exists>srv\<in>set (kore_servers s). srv_tls srv \<noteq> 0
              \<and> (\<exists>d\<in>set (srv_domains srv). strcmp_eq (dom_domain d) (x509_domain req)))"
    by (simp add: find_server_domain_None_iff)
  have c: "fst ?v = KORE_RESULT_OK \<longrightarrow> snd (snd ?v) = s"
    by (auto simp: kore_worker_keymgr_response_verify_def split: option.splits)
  have d: "fst ?v = KORE_RESULT_ERROR \<longrightarrow> (\<exists>fmt. snd (snd ?v) = kore_log LOG_WARNING fmt s)"
    by (auto simp: kore_worker_keymgr_response_verify_def split: option.splits)
  have e: "fst (kore_worker_keymgr_response_verify h msg req True s) = KORE_RESULT_ERROR \<longrightarrow>
        (\<exists>fmt. worker_keymgr_response h msg req s = kore_log LOG_WARNING fmt s)"
    by (auto simp: worker_keymgr_response_def kore_worker_keymgr_response_verify_def
        split: option.splits)
  from a b c d e sz show ?thesis by blast
qed


theorem keymgr_response_verify_accepts_witness:
  "fst (kore_worker_keymgr_response_verify ex_h (ex_msg KORE_MSG_CERTIFICATE 267)
          (ex_req ''example.com'' [1, 2, 3]) True ex_tls_worker) = KORE_RESULT_OK
   \<and> fst (kore_worker_keymgr_response_verify ex_h (ex_msg KORE_MSG_CERTIFICATE 10)
          (ex_req ''example.com'' [1, 2, 3]) True ex_tls_worker) = KORE_RESULT_ERROR
   \<and> (\<exists>fmt. worker_keymgr_response ex_h (ex_msg KORE_MSG_CERTIFICATE 10)
               (ex_req ''example.com'' [1, 2, 3]) ex_tls_worker
             = kore_log LOG_WARNING fmt ex_tls_worker)"
proof -
  have a: "sizeof_kore_x509_msg ex_h \<le> msg_length (ex_msg KORE_MSG_CERTIFICATE 267)
      \<and> unat (msg_length (ex_msg KORE_MSG_CERTIFICATE 267))
          = unat (sizeof_kore_x509_msg ex_h) + unat (x509_data_len (ex_req ''example.com'' [1, 2, 3]))
      \<and> x509_domain (ex_req ''example.com'' [1, 2, 3]) ! KORE_DOMAINNAME_LEN ex_h = CHR 0x00
      \<and> (True \<longrightarrow> (\<exists>srv\<in>set (kore_servers ex_tls_worker). srv_tls srv \<noteq> 0
              \<and> (\<exists>d\<in>set (srv_domains srv).
                    strcmp_eq (dom_domain d) (x509_domain (ex_req ''example.com'' [1, 2, 3])))))"
    by (simp add: msg_eval ex_h_def)
  have b: "fst (kore_worker_keymgr_response_verify ex_h (ex_msg KORE_MSG_CERTIFICATE 10)
          (ex_req ''example.com'' [1, 2, 3]) True ex_tls_worker) = KORE_RESULT_ERROR"
    by (simp add: msg_eval ex_h_def)
  from keymgr_response_verify_accepts
         [of ex_h "ex_msg KORE_MSG_CERTIFICATE 267" "ex_req ''example.com'' [1, 2, 3]" True ex_tls_worker]
       a
  have c: "fst (kore_worker_keymgr_response_verify ex_h (ex_msg KORE_MSG_CERTIFICATE 267)
          (ex_req ''example.com'' [1, 2, 3]) True ex_tls_worker) = KORE_RESULT_OK"
    by blast
  from keymgr_response_verify_accepts
         [of ex_h "ex_msg KORE_MSG_CERTIFICATE 10" "ex_req ''example.com'' [1, 2, 3]" True ex_tls_worker]
       b
  have d: "\<exists>fmt. worker_keymgr_response ex_h (ex_msg KORE_MSG_CERTIFICATE 10)
               (ex_req ''example.com'' [1, 2, 3]) ex_tls_worker
             = kore_log LOG_WARNING fmt ex_tls_worker"
    by blast
  from b c d show ?thesis by blast
qed

text \<open>
  The test on the name is on the last character of the slot: a name that ends earlier in
  its slot is refused all the same when that character is not NUL.
\<close>

lemma keymgr_verify_early_nul:
  "cstr (''example.com'' @ CHR 0x00 # replicate 244 (CHR ''x'')) = ''example.com''
   \<and> fst (kore_worker_keymgr_response_verify ex_h (ex_msg KORE_MSG_CERTIFICATE 267)
        \<lparr>x509_domain = ''example.com'' @ CHR 0x00 # replicate 244 (CHR ''x''),
         x509_data_len = 3, x509_data = [1, 2, 3]\<rparr> True ex_tls_worker) = KORE_RESULT_ERROR"
  by (simp add: msg_eval ex_h_def)

end
